theory Spec2Isabelle
  imports Main "HOL-Library.AList"
begin

section \<open>Python values, exceptions and strings\<close>

text \<open>
  A \<^verbatim>\<open>str\<close> is the list of its code points, so every string of the interpreter can be
  written. \<open>str\<close> turns a literal of the theory into such a list; a code point that a
  literal cannot hold is written as a number.
\<close>

type_synonym pystr = "nat list"

abbreviation str :: "string \<Rightarrow> pystr" where
  "str s \<equiv> map of_char s"

abbreviation ord :: "char \<Rightarrow> nat" where
  "ord c \<equiv> of_char c"

text \<open>
  The values that flow through \<^verbatim>\<open>main.py\<close>: what a Firestore document holds, what
  \<^verbatim>\<open>json.loads\<close> returns and what \<^verbatim>\<open>dict.get\<close> hands back. A dict with string keys is an
  association list; \<open>AList.update\<close> is the item assignment \<^verbatim>\<open>d[k] = v\<close> (replace in
  place, or append a new key). \<open>POther\<close> stands for any other object (a float, a
  timestamp, a reference): it carries its truth value and the name of its type, it is
  not a \<^verbatim>\<open>str\<close> and has neither \<^verbatim>\<open>get\<close> nor \<^verbatim>\<open>upper\<close>.
\<close>

datatype pyval =
    PNone
  | PBool bool
  | PInt int
  | PStr pystr
  | PList "pyval list"
  | PDict "(pystr \<times> pyval) list"
  | POther bool pystr

type_synonym pydict = "(pystr \<times> pyval) list"

text \<open>
  An exception is kept with \<^verbatim>\<open>str(e)\<close>. \<open>Exception\<close> is any exception that
  \<^verbatim>\<open>except Exception\<close> catches; \<open>BaseException\<close> is one it lets through
  (\<^verbatim>\<open>KeyboardInterrupt\<close>, \<^verbatim>\<open>SystemExit\<close>), which only a bare \<^verbatim>\<open>except:\<close> catches.
\<close>

datatype exn = Exception pystr | BaseException pystr

text \<open>Truth value of a value, as \<^verbatim>\<open>if x:\<close> and \<^verbatim>\<open>not x\<close> test it.\<close>

fun truthy :: "pyval \<Rightarrow> bool" where
  "truthy PNone = False"
| "truthy (PBool b) = b"
| "truthy (PInt i) = (i \<noteq> 0)"
| "truthy (PStr s) = (s \<noteq> [])"
| "truthy (PList xs) = (xs \<noteq> [])"
| "truthy (PDict kvs) = (kvs \<noteq> [])"
| "truthy (POther b t) = b"

text \<open>\<^verbatim>\<open>type(x).__name__\<close>, as the message of an AttributeError or TypeError shows it.\<close>

fun type_name :: "pyval \<Rightarrow> pystr" where
  "type_name PNone = str ''NoneType''"
| "type_name (PBool b) = str ''bool''"
| "type_name (PInt i) = str ''int''"
| "type_name (PStr s) = str ''str''"
| "type_name (PList xs) = str ''list''"
| "type_name (PDict kvs) = str ''dict''"
| "type_name (POther b t) = t"

text \<open>The message of the AttributeError that \<^verbatim>\<open>x.a\<close> raises on a value without \<^verbatim>\<open>a\<close>.\<close>

definition no_attribute :: "pyval \<Rightarrow> pystr \<Rightarrow> pystr" where
  "no_attribute x a =
     [39] @ type_name x @ [39] @ str '' object has no attribute '' @ [39] @ a @ [39]"

text \<open>\<^verbatim>\<open>d.get(k, default)\<close> on a dict.\<close>

definition dict_get :: "pydict \<Rightarrow> pystr \<Rightarrow> pyval \<Rightarrow> pyval" where
  "dict_get d k dflt = (case map_of d k of Some v \<Rightarrow> v | None \<Rightarrow> dflt)"

text \<open>\<^verbatim>\<open>s.startswith(p)\<close>, \<^verbatim>\<open>s.endswith(p)\<close> and \<^verbatim>\<open>sub in s\<close>.\<close>

definition startswith :: "pystr \<Rightarrow> pystr \<Rightarrow> bool" where
  "startswith s p = (take (length p) s = p)"

definition endswith :: "pystr \<Rightarrow> pystr \<Rightarrow> bool" where
  "endswith s p = (length p \<le> length s \<and> drop (length s - length p) s = p)"

fun contains :: "pystr \<Rightarrow> pystr \<Rightarrow> bool" where
  "contains sub [] = (sub = [])"
| "contains sub (c # cs) = (startswith (c # cs) sub \<or> contains sub cs)"

text \<open>
  \<^verbatim>\<open>str.isspace\<close> on one code point, which is what \<^verbatim>\<open>strip()\<close> takes off: tab, line feed,
  vertical tab, form feed, carriage return, the separators FS, GS, RS, US, space, NEL,
  the no-break space, the Ogham space mark, the spaces U+2000 to U+200A, the line and
  paragraph separators, the narrow no-break space, the medium mathematical space and the
  ideographic space.
\<close>

definition is_space :: "nat \<Rightarrow> bool" where
  "is_space n =
     ((9 \<le> n \<and> n \<le> 13) \<or> (28 \<le> n \<and> n \<le> 32) \<or> n = 133 \<or> n = 160 \<or> n = 5760
      \<or> (8192 \<le> n \<and> n \<le> 8202) \<or> n = 8232 \<or> n = 8233 \<or> n = 8239 \<or> n = 8287
      \<or> n = 12288)"

text \<open>\<^verbatim>\<open>s.strip()\<close>: white space taken off both ends.\<close>

definition py_strip :: "pystr \<Rightarrow> pystr" where
  "py_strip s = rev (dropWhile is_space (rev (dropWhile is_space s)))"

text \<open>
  The tables of the interpreter's Unicode database that the code reaches, for the code
  points from 128 on: the full upper-case mapping of a code point (one code point or
  several) and the value of a decimal digit. They are parameters; ASCII is written out
  below.
\<close>

record ucd =
  to_upper :: "nat \<Rightarrow> nat list"
  to_decimal :: "nat \<Rightarrow> nat option"

text \<open>
  \<^verbatim>\<open>s.upper()\<close>: every code point is replaced by its full upper-case mapping, whatever
  stands around it. The letters \<^verbatim>\<open>a\<close> to \<^verbatim>\<open>z\<close> move down by 32 and the rest of ASCII stays.
\<close>

definition upper_cp :: "ucd \<Rightarrow> nat \<Rightarrow> nat list" where
  "upper_cp U c =
     (if 97 \<le> c \<and> c \<le> 122 then [c - 32] else if c < 128 then [c] else to_upper U c)"

definition upper :: "ucd \<Rightarrow> pystr \<Rightarrow> pystr" where
  "upper U s = concat (map (upper_cp U) s)"

section \<open>The weekday label (lines 44 to 51)\<close>

text \<open>
  \<^verbatim>\<open>datetime.strptime(report_date, "%m/%d/%Y")\<close>. The format compiles to the regular
  expression \<^verbatim>\<open>(1[0-2]|0[1-9]|[1-9])/(3[0-1]|[1-2]\d|0[1-9]|[1-9]| [1-9])/(\d\d\d\d)\<close>,
  which must match from the start and leave nothing unconverted; the three numbers must
  then form a date (year at least 1, day within the month). No alternative of the month
  or the day contains a slash, so the month is the text before the first slash and the
  day the text before the second. A character class such as \<^verbatim>\<open>[1-9]\<close> takes ASCII digits
  only; \<^verbatim>\<open>\d\<close> takes every decimal digit of the Unicode database, and \<^verbatim>\<open>int\<close> reads it
  with its value.
\<close>

definition between :: "char \<Rightarrow> char \<Rightarrow> nat \<Rightarrow> bool" where
  "between lo hi c = (ord lo \<le> c \<and> c \<le> ord hi)"

definition decimal :: "ucd \<Rightarrow> nat \<Rightarrow> nat option" where
  "decimal U c =
     (if between CHR ''0'' CHR ''9'' c then Some (c - 48)
      else if c < 128 then None
      else to_decimal U c)"

fun split_slash :: "pystr \<Rightarrow> (pystr \<times> pystr) option" where
  "split_slash [] = None"
| "split_slash (c # cs) =
     (if c = ord CHR ''/'' then Some ([], cs)
      else case split_slash cs of None \<Rightarrow> None | Some (a, b) \<Rightarrow> Some (c # a, b))"

fun month_of :: "pystr \<Rightarrow> nat option" where
  "month_of [a, b] =
     (if a = ord CHR ''1'' \<and> between CHR ''0'' CHR ''2'' b then Some (10 + (b - 48))
      else if a = ord CHR ''0'' \<and> between CHR ''1'' CHR ''9'' b then Some (b - 48)
      else None)"
| "month_of [a] = (if between CHR ''1'' CHR ''9'' a then Some (a - 48) else None)"
| "month_of _ = None"

fun day_of :: "ucd \<Rightarrow> pystr \<Rightarrow> nat option" where
  "day_of U [a, b] =
     (if a = ord CHR ''3'' \<and> between CHR ''0'' CHR ''1'' b then Some (30 + (b - 48))
      else if between CHR ''1'' CHR ''2'' a
        then (case decimal U b of Some v \<Rightarrow> Some (10 * (a - 48) + v) | None \<Rightarrow> None)
      else if (a = ord CHR ''0'' \<or> a = ord CHR '' '') \<and> between CHR ''1'' CHR ''9'' b
        then Some (b - 48)
      else None)"
| "day_of U [a] = (if between CHR ''1'' CHR ''9'' a then Some (a - 48) else None)"
| "day_of U _ = None"

fun year_of :: "ucd \<Rightarrow> pystr \<Rightarrow> nat option" where
  "year_of U [a, b, c, d] =
     (case (decimal U a, decimal U b, decimal U c, decimal U d) of
        (Some x, Some y, Some z, Some w) \<Rightarrow> Some (1000 * x + 100 * y + 10 * z + w)
      | _ \<Rightarrow> None)"
| "year_of U _ = None"

record date =
  year :: nat
  month :: nat
  day :: nat

definition is_leap :: "nat \<Rightarrow> bool" where
  "is_leap y = (y mod 4 = 0 \<and> (y mod 100 \<noteq> 0 \<or> y mod 400 = 0))"

definition days_in_month :: "nat \<Rightarrow> nat \<Rightarrow> nat" where
  "days_in_month y m =
     (if m = 2 \<and> is_leap y then 29
      else [31, 28, 31, 30, 31, 30, 31, 31, 30, 31, 30, 31] ! (m - 1))"

definition days_before_year :: "nat \<Rightarrow> nat" where
  "days_before_year y = (let p = y - 1 in p * 365 + p div 4 - p div 100 + p div 400)"

definition days_before_month :: "nat \<Rightarrow> nat \<Rightarrow> nat" where
  "days_before_month y m =
     [0, 31, 59, 90, 120, 151, 181, 212, 243, 273, 304, 334] ! (m - 1)
       + (if 2 < m \<and> is_leap y then 1 else 0)"

definition toordinal :: "date \<Rightarrow> nat" where
  "toordinal d = days_before_year (year d) + days_before_month (year d) (month d) + day d"

text \<open>\<^verbatim>\<open>dt.weekday()\<close>: Monday is 0.\<close>

definition weekday :: "date \<Rightarrow> nat" where
  "weekday d = (toordinal d + 6) mod 7"

text \<open>
  The messages of the errors are shortened (the library quotes the data in them); the
  bare \<^verbatim>\<open>except:\<close> of line 50 drops them unread.
\<close>

definition strptime :: "ucd \<Rightarrow> pyval \<Rightarrow> exn + date" where
  "strptime U v =
     (case v of
        PStr s \<Rightarrow>
          (case split_slash s of
             None \<Rightarrow> Inl (Exception (str ''time data does not match format''))
           | Some (ms, rest) \<Rightarrow>
               (case split_slash rest of
                  None \<Rightarrow> Inl (Exception (str ''time data does not match format''))
                | Some (ds, ys) \<Rightarrow>
                    (case (month_of ms, day_of U ds, year_of U (take 4 ys)) of
                       (Some m, Some d, Some y) \<Rightarrow>
                         if length ys \<noteq> 4
                           then Inl (Exception (str ''unconverted data remains''))
                         else if y < 1 then Inl (Exception (str ''year 0 is out of range''))
                         else if days_in_month y m < d
                           then Inl (Exception (str ''day is out of range for month''))
                         else Inr \<lparr>year = y, month = m, day = d\<rparr>
                     | _ \<Rightarrow> Inl (Exception (str ''time data does not match format'')))))
      | _ \<Rightarrow> Inl (Exception (str ''strptime() argument 1 must be str, not '' @ type_name v)))"

definition days :: "pystr list" where
  "days = [str ''Lunes'', str ''Martes'', str ''Mi'' @ [0xE9] @ str ''rcoles'',
           str ''Jueves'', str ''Viernes'', str ''S'' @ [0xE1] @ str ''bado'',
           str ''Domingo'']"

text \<open>
  Lines 44 to 51: the label starts as the sentinel; the bare \<^verbatim>\<open>except:\<close> swallows
  whatever the parse raises and leaves the sentinel in place.
\<close>

definition day_of_week :: "ucd \<Rightarrow> pyval \<Rightarrow> pystr" where
  "day_of_week U report_date =
     (case strptime U report_date of
        Inl e \<Rightarrow> str ''Desconocido''
      | Inr dt \<Rightarrow> days ! weekday dt)"

section \<open>The extraction (\<^verbatim>\<open>synthesize_and_extract\<close>, lines 38 to 104)\<close>

text \<open>
  The collaborators of the extraction are parameters. The prompt of lines 63 to 83 is a
  fixed template with three holes; the model keeps the three values that fill it.
  \<open>generate_content\<close> is the language model: at its \<open>n\<close>-th call of the run, given the
  prompt, it either returns the text of its response or raises. \<open>configure\<close> is lines
  54 and 55 (it may raise), \<open>loads\<close> is \<^verbatim>\<open>json.loads\<close> and \<open>unicode\<close> is the Unicode
  database of the interpreter.
\<close>

record prompt =
  p_day :: pystr
  p_report_date :: pyval
  p_text :: pyval

datatype outcome = Returns pystr | Raises exn

record env =
  unicode :: ucd
  configure :: "pyval \<Rightarrow> exn option"
  generate_content :: "nat \<Rightarrow> prompt \<Rightarrow> outcome"
  loads :: "pystr \<Rightarrow> exn + pyval"

text \<open>
  What a run leaves behind: the pending writes of the current batch with its counter,
  the number of processed records, the batches committed so far (oldest first), every
  \<^verbatim>\<open>time.sleep\<close> in order, and the number of calls made to the language model.
\<close>

record state =
  batch :: "(pystr \<times> pydict) list"
  batch_count :: nat
  processed_count :: nat
  committed :: "(pystr \<times> pydict) list list"
  slept :: "nat list"
  calls :: nat

definition init_state :: state where
  "init_state = \<lparr>batch = [], batch_count = 0, processed_count = 0, committed = [],
                  slept = [], calls = 0\<rparr>"

definition max_retries :: nat where
  "max_retries = 3"

text \<open>Lines 88 to 92: strip the response, then take off the two fence markers.\<close>

definition clean_content :: "pystr \<Rightarrow> pystr" where
  "clean_content text =
     (let content = py_strip text;
          content = (if startswith content (str ''```json'') then drop 7 content else content);
          content = (if endswith content (str ''```'') then take (length content - 3) content
                     else content)
      in content)"

text \<open>Lines 88 to 94: the cleaned response goes to \<^verbatim>\<open>json.loads\<close>.\<close>

definition parse_response :: "env \<Rightarrow> pystr \<Rightarrow> exn + pyval" where
  "parse_response E text = loads E (clean_content text)"

text \<open>The body of the inner \<^verbatim>\<open>try\<close> (lines 62 to 94), at the \<open>n\<close>-th call of the model.\<close>

definition try_once :: "env \<Rightarrow> nat \<Rightarrow> prompt \<Rightarrow> exn + pyval" where
  "try_once E n p =
     (case generate_content E n p of
        Raises e \<Rightarrow> Inl e
      | Returns text \<Rightarrow> parse_response E text)"

text \<open>
  The \<^verbatim>\<open>for attempt in range(max_retries)\<close> loop with its handler (lines 61 to 101). The
  first argument counts the iterations left. A loop that ran out without returning would
  fall off the end of the function, which returns \<^verbatim>\<open>None\<close>.
\<close>

fun attempts :: "env \<Rightarrow> prompt \<Rightarrow> nat \<Rightarrow> nat \<Rightarrow> nat \<Rightarrow> state \<Rightarrow> (exn + pyval) \<times> state" where
  "attempts E p 0 attempt retry_delay s = (Inr PNone, s)"
| "attempts E p (Suc k) attempt retry_delay s =
     (let s1 = s\<lparr>calls := Suc (calls s)\<rparr>
      in case try_once E (calls s) p of
           Inr v \<Rightarrow> (Inr v, s1)
         | Inl (BaseException m) \<Rightarrow> (Inl (BaseException m), s1)
         | Inl (Exception m) \<Rightarrow>
             if contains (str ''429'') m \<and> attempt < max_retries - 1
             then attempts E p k (Suc attempt) (retry_delay * 2)
                    (s1\<lparr>slept := slept s1 @ [retry_delay]\<rparr>)
             else (Inl (Exception m), s1))"

text \<open>Line 104: the dict returned by the outer handler.\<close>

definition degraded :: "pystr \<Rightarrow> pyval" where
  "degraded m =
     PDict [(str ''sintesis'', PStr (str ''Error: '' @ m)), (str ''tiempo'', PStr (str ''Error'')),
            (str ''modo'', PStr (str ''Error'')), (str ''circunstancia'', PStr (str ''Error'')),
            (str ''alcaldia'', PStr (str ''Error'')), (str ''es_anonima'', PStr (str ''Error''))]"

definition synthesize_and_extract ::
    "env \<Rightarrow> pyval \<Rightarrow> pyval \<Rightarrow> pyval \<Rightarrow> state \<Rightarrow> (exn + pyval) \<times> state" where
  "synthesize_and_extract E text report_date api_key s =
     (if \<not> truthy api_key then (Inr PNone, s)
      else
        let day_of_week_str = day_of_week (unicode E) report_date;
            p = \<lparr>p_day = day_of_week_str, p_report_date = report_date, p_text = text\<rparr>
        in case (case configure E api_key of
                   Some e \<Rightarrow> (Inl e, s)
                 | None \<Rightarrow> attempts E p max_retries 0 5 s) of
             (Inr v, s') \<Rightarrow> (Inr v, s')
           | (Inl (Exception m), s') \<Rightarrow> (Inr (degraded m), s')
           | (Inl (BaseException m), s') \<Rightarrow> (Inl (BaseException m), s'))"

section \<open>The run (\<^verbatim>\<open>process_denuncias\<close>, lines 107 to 191)\<close>

record source_doc =
  doc_id :: pystr
  doc_fields :: pydict

definition k_Sintesis :: pystr where
  "k_Sintesis = str ''S'' @ [0xED] @ str ''ntesis''"

definition k_Alcaldia :: pystr where
  "k_Alcaldia = str ''Alcald'' @ [0xED] @ str ''a''"

definition k_EsAnonima :: pystr where
  "k_EsAnonima = [0xBF] @ str ''Es an'' @ [0xF3] @ str ''nima?''"

text \<open>The seven field names that the run writes into a record.\<close>

definition derived_keys :: "pystr set" where
  "derived_keys = {k_Sintesis, str ''Tiempo'', str ''Modo'', str ''Circunstancia'', k_Alcaldia,
                   k_EsAnonima, str ''Registro''}"

text \<open>
  \<^verbatim>\<open>x.upper()\<close> on a value: only a \<^verbatim>\<open>str\<close> has it among the values \<^verbatim>\<open>json.loads\<close>
  returns, anything else raises AttributeError.
\<close>

definition py_upper :: "ucd \<Rightarrow> pyval \<Rightarrow> exn + pystr" where
  "py_upper U v =
     (case v of
        PStr s \<Rightarrow> Inr (upper U s)
      | _ \<Rightarrow> Inl (Exception (no_attribute v (str ''upper''))))"

text \<open>
  Lines 144 to 156, reached with a truthy \<open>extracted_data\<close>. Only a dict has \<^verbatim>\<open>get\<close>:
  on a list, a string, a number or \<^verbatim>\<open>True\<close> line 144 raises AttributeError.
\<close>

definition apply_extracted :: "ucd \<Rightarrow> pydict \<Rightarrow> pyval \<Rightarrow> exn + pydict" where
  "apply_extracted U doc_data extracted_data =
     (case extracted_data of
        PDict ann \<Rightarrow>
          (let d = AList.update k_Sintesis (dict_get ann (str ''sintesis'') (PStr [])) doc_data;
               d = AList.update (str ''Tiempo'') (dict_get ann (str ''tiempo'') (PStr [])) d;
               d = AList.update (str ''Modo'') (dict_get ann (str ''modo'') (PStr [])) d;
               d = AList.update (str ''Circunstancia'')
                     (dict_get ann (str ''circunstancia'') (PStr [])) d;
               d = AList.update k_Alcaldia (dict_get ann (str ''alcaldia'') (PStr [])) d
           in case py_upper U (dict_get ann (str ''es_anonima'') (PStr (str ''NO''))) of
                Inl e \<Rightarrow> Inl e
              | Inr es_anonima \<Rightarrow>
                  (let d = AList.update k_EsAnonima (PStr es_anonima) d
                   in if es_anonima = str ''SI''
                      then Inr (AList.update (str ''Registro'') (PStr (str ''Aviso'')) d)
                      else Inr (AList.update (str ''Registro'') (PStr (str ''Denuncia'')) d)))
      | _ \<Rightarrow> Inl (Exception (no_attribute extracted_data (str ''get''))))"

text \<open>Lines 158 to 164: the record of a source without transcript.\<close>

definition no_transcript :: "pydict \<Rightarrow> pydict" where
  "no_transcript doc_data =
     (let d = AList.update k_Sintesis (PStr (str ''No Transcript available.'')) doc_data;
          d = AList.update (str ''Tiempo'') (PStr (str ''N/A'')) d;
          d = AList.update (str ''Modo'') (PStr (str ''N/A'')) d;
          d = AList.update (str ''Circunstancia'') (PStr (str ''N/A'')) d;
          d = AList.update k_Alcaldia (PStr (str ''N/A'')) d;
          d = AList.update k_EsAnonima (PStr (str ''N/A'')) d;
          d = AList.update (str ''Registro'') (PStr (str ''N/A'')) d
      in d)"

text \<open>
  Lines 133 to 164: the record that will be written for one document, or the exception
  that leaves the loop.
\<close>

definition enrich_doc :: "env \<Rightarrow> pyval \<Rightarrow> source_doc \<Rightarrow> state \<Rightarrow> (exn + pydict) \<times> state" where
  "enrich_doc E api_key doc s =
     (let doc_data = doc_fields doc;
          transcript = dict_get doc_data (str ''Transcript'') (PStr []);
          report_date = dict_get doc_data (str ''Date'') (PStr (str ''Fecha desconocida''))
      in if truthy transcript
         then (case synthesize_and_extract E transcript report_date api_key s of
                 (Inl e, s') \<Rightarrow> (Inl e, s')
               | (Inr extracted_data, s') \<Rightarrow>
                   if truthy extracted_data
                   then (apply_extracted (unicode E) doc_data extracted_data, s')
                   else (Inr doc_data, s'))
         else (Inr (no_transcript doc_data), s))"

text \<open>Lines 167 to 172: stage the write, count it, pause two seconds.\<close>

definition stage :: "pystr \<Rightarrow> pydict \<Rightarrow> state \<Rightarrow> state" where
  "stage i d s =
     s\<lparr>batch := batch s @ [(i, d)],
       batch_count := batch_count s + 1,
       processed_count := processed_count s + 1,
       slept := slept s @ [2]\<rparr>"

text \<open>Lines 174 to 177.\<close>

definition flush_if_full :: "state \<Rightarrow> state" where
  "flush_if_full s =
     (if 400 \<le> batch_count s
      then s\<lparr>committed := committed s @ [batch s], batch := [], batch_count := 0\<rparr>
      else s)"

text \<open>One pass of the loop body up to line 172.\<close>

definition process_doc :: "env \<Rightarrow> pyval \<Rightarrow> source_doc \<Rightarrow> state \<Rightarrow> exn option \<times> state" where
  "process_doc E api_key doc s =
     (case enrich_doc E api_key doc s of
        (Inl e, s') \<Rightarrow> (Some e, s')
      | (Inr doc_data, s') \<Rightarrow> (None, stage (doc_id doc) doc_data s'))"

text \<open>The \<^verbatim>\<open>for doc in docs\<close> loop (lines 132 to 177); an exception ends it.\<close>

fun run_loop :: "env \<Rightarrow> pyval \<Rightarrow> source_doc list \<Rightarrow> state \<Rightarrow> exn option \<times> state" where
  "run_loop E api_key [] s = (None, s)"
| "run_loop E api_key (doc # docs) s =
     (case process_doc E api_key doc s of
        (Some e, s') \<Rightarrow> (Some e, s')
      | (None, s') \<Rightarrow> run_loop E api_key docs (flush_if_full s'))"

text \<open>Lines 182 and 183: the trailing batch.\<close>

definition commit_remaining :: "state \<Rightarrow> state" where
  "commit_remaining s =
     (if 0 < batch_count s then s\<lparr>committed := committed s @ [batch s]\<rparr> else s)"

text \<open>
  The three responses of the endpoint: the help page of a GET, status 200 with the number
  of processed records, status 500 with a message.
\<close>

datatype http_method = GET | POST

datatype response = Help | Done nat | Failed pystr

text \<open>
  \<^verbatim>\<open>process_denuncias\<close>. \<open>api_key\<close> is what \<^verbatim>\<open>get_gemini_api_key\<close> returned (\<^verbatim>\<open>None\<close>
  when the secret could not be read) and \<open>docs\<close> is the stream of the source collection.
  The handler of line 187 turns an exception into status 500; what was committed stays.
\<close>

definition process_denuncias ::
    "env \<Rightarrow> http_method \<Rightarrow> pyval \<Rightarrow> source_doc list \<Rightarrow> (exn + response) \<times> state" where
  "process_denuncias E method api_key docs =
     (if method = GET then (Inr Help, init_state)
      else if \<not> truthy api_key
        then (Inr (Failed (str ''Failed to retrieve API key.'')), init_state)
      else case run_loop E api_key docs init_state of
             (Some (Exception m), s) \<Rightarrow> (Inr (Failed m), s)
           | (Some (BaseException m), s) \<Rightarrow> (Inl (BaseException m), s)
           | (None, s) \<Rightarrow> (Inr (Done (processed_count s)), commit_remaining s))"

section \<open>Concrete collaborators and documents\<close>

text \<open>
  The white space that \<^verbatim>\<open>json.loads\<close> skips before and after a document: space, tab,
  line feed and carriage return.
\<close>

definition json_ws :: "nat \<Rightarrow> bool" where
  "json_ws c = (c = 32 \<or> c = 9 \<or> c = 10 \<or> c = 13)"

definition json_trim :: "pystr \<Rightarrow> pystr" where
  "json_trim s = rev (dropWhile json_ws (rev (dropWhile json_ws s)))"

text \<open>
  A stand-in for \<^verbatim>\<open>json.loads\<close> that knows four documents and rejects everything else;
  like the library it skips the white space around the document.
\<close>

definition sample_loads :: "pystr \<Rightarrow> exn + pyval" where
  \<open>sample_loads s =
     (let t = json_trim s
      in if t = str ''{"es_anonima": "si"}''
           then Inr (PDict [(str ''es_anonima'', PStr (str ''si''))])
         else if t = str ''{"es_anonima": true}''
           then Inr (PDict [(str ''es_anonima'', PBool True)])
         else if t = str ''{}'' then Inr (PDict [])
         else if t = str ''[1]'' then Inr (PList [PInt 1])
         else Inl (Exception (str ''Expecting value: line 1 column 1 (char 0)'')))\<close>

text \<open>
  A piece of the Unicode database: the upper-case mapping of the Latin-1 letters, of the
  long s and of the dotless i, and the Arabic-Indic digits.
\<close>

definition sample_ucd :: ucd where
  "sample_ucd =
     \<lparr>to_upper =
        (\<lambda>c. if c = 223 then [83, 83]
              else if c = 181 then [924]
              else if c = 255 then [376]
              else if 224 \<le> c \<and> c \<le> 254 \<and> c \<noteq> 247 then [c - 32]
              else if c = 383 then [83]
              else if c = 305 then [73]
              else [c]),
      to_decimal = (\<lambda>c. if 1632 \<le> c \<and> c \<le> 1641 then Some (c - 1632) else None)\<rparr>"

text \<open>A model that answers every call with a rate-limit error.\<close>

definition always_429 :: env where
  "always_429 =
     \<lparr>unicode = sample_ucd,
      configure = (\<lambda>k. None),
      generate_content = (\<lambda>n p. Raises (Exception (str ''429 Resource exhausted''))),
      loads = sample_loads\<rparr>"

text \<open>A model that is rate-limited on its first two calls and then answers, fenced.\<close>

definition third_time_lucky :: env where
  \<open>third_time_lucky =
     \<lparr>unicode = sample_ucd,
      configure = (\<lambda>k. None),
      generate_content =
        (\<lambda>n p. if n < 2 then Raises (Exception (str ''429 Resource exhausted''))
                else Returns (str ''```json{"es_anonima": "si"}```'')),
      loads = sample_loads\<rparr>\<close>

text \<open>
  A model that is rate-limited once and then fails with another error, and one that
  fails with another error after two rate limits.
\<close>

definition limited_then_down :: env where
  "limited_then_down =
     \<lparr>unicode = sample_ucd,
      configure = (\<lambda>k. None),
      generate_content =
        (\<lambda>n p. if n < 1 then Raises (Exception (str ''429 Resource exhausted''))
                else Raises (Exception (str ''503 Service unavailable''))),
      loads = sample_loads\<rparr>"

text \<open>A model that answers in prose, which \<^verbatim>\<open>json.loads\<close> rejects.\<close>

definition not_json :: env where
  "not_json =
     \<lparr>unicode = sample_ucd,
      configure = (\<lambda>k. None),
      generate_content = (\<lambda>n p. Returns (str ''Lo siento, no puedo ayudar.'')),
      loads = sample_loads\<rparr>"

text \<open>A model that answers the anonymity question with a JSON boolean.\<close>

definition answers_true :: env where
  \<open>answers_true =
     \<lparr>unicode = sample_ucd,
      configure = (\<lambda>k. None),
      generate_content = (\<lambda>n p. Returns (str ''{"es_anonima": true}'')),
      loads = sample_loads\<rparr>\<close>

definition doc_no_transcript :: source_doc where
  "doc_no_transcript =
     \<lparr>doc_id = str ''d1'',
      doc_fields = [(str ''Transcript'', PStr []), (str ''Date'', PStr (str ''03/10/2025''))]\<rparr>"

definition doc_with_registro :: source_doc where
  "doc_with_registro =
     \<lparr>doc_id = str ''d2'', doc_fields = [(str ''Registro'', PStr (str ''Folio 7''))]\<rparr>"

definition doc_with_transcript :: source_doc where
  "doc_with_transcript =
     \<lparr>doc_id = str ''d3'',
      doc_fields = [(str ''Transcript'', PStr (str ''Me pidieron dinero'')),
                    (str ''Date'', PStr (str ''03/10/2025''))]\<rparr>"

section \<open>Strings: stripping, prefixes and suffixes\<close>

lemma trim_pad:
  assumes a: "\<forall>c\<in>set a. P c" and b: "\<forall>c\<in>set b. P c"
  shows "rev (dropWhile P (rev (dropWhile P (a @ x @ b)))) = rev (dropWhile P (rev (dropWhile P x)))"
proof -
  have 1: "dropWhile P (a @ x @ b) = dropWhile P (x @ b)"
    using a by (simp add: dropWhile_append2)
  show ?thesis
  proof (cases "dropWhile P x = []")
    case True
    then have "\<forall>c\<in>set x. P c" by (simp add: dropWhile_eq_Nil_conv)
    then have A: "dropWhile P (x @ b) = []" using b by (auto simp: dropWhile_eq_Nil_conv)
    show ?thesis by (simp only: 1 A True)
  next
    case False
    then have "\<exists>c\<in>set x. \<not> P c" by (auto simp: dropWhile_eq_Nil_conv)
    then have 2: "dropWhile P (x @ b) = dropWhile P x @ b"
      by (auto simp: dropWhile_append1)
    have 3: "dropWhile P (rev b @ rev (dropWhile P x)) = dropWhile P (rev (dropWhile P x))"
      by (rule dropWhile_append2) (use b in simp)
    show ?thesis unfolding 1 2 using 3 by simp
  qed
qed

lemma py_strip_pad:
  "list_all is_space a \<Longrightarrow> list_all is_space b \<Longrightarrow> py_strip (a @ x @ b) = py_strip x"
  unfolding py_strip_def by (rule trim_pad) (simp_all add: list_all_iff)

lemma json_trim_pad:
  "list_all json_ws a \<Longrightarrow> list_all json_ws b \<Longrightarrow> json_trim (a @ x @ b) = json_trim x"
  unfolding json_trim_def by (rule trim_pad) (simp_all add: list_all_iff)

lemma py_strip_id:
  assumes "\<not> is_space c" and "\<not> is_space d"
  shows "py_strip (c # mid @ [d]) = c # mid @ [d]"
  using assms by (simp add: py_strip_def)

lemma json_ws_is_space: "json_ws c \<Longrightarrow> is_space c"
  by (auto simp: json_ws_def is_space_def)

lemma startswith_append: "startswith (p @ r) p"
  by (simp add: startswith_def)

lemma startswith_differs: "c \<noteq> d \<Longrightarrow> \<not> startswith (c # r) (d # p)"
  by (simp add: startswith_def)

lemma endswith_append: "endswith (r @ p) p"
  by (simp add: endswith_def)

lemma endswith_differs:
  assumes "d \<noteq> e"
  shows "\<not> endswith (r @ [d]) (p @ [e])"
proof
  assume "endswith (r @ [d]) (p @ [e])"
  then have "drop (length (r @ [d]) - length (p @ [e])) (r @ [d]) = p @ [e]"
    by (simp add: endswith_def)
  then have "last (drop (length (r @ [d]) - length (p @ [e])) (r @ [d])) = last (p @ [e])"
    by simp
  moreover have "length (r @ [d]) - length (p @ [e]) < length (r @ [d])" by simp
  ultimately have "last (r @ [d]) = e" by (simp only: last_drop last_snoc)
  with assms show False by simp
qed

text \<open>Between the two markers the code tests for, cleaning leaves exactly the body.\<close>

lemma clean_content_fenced: "clean_content (str ''```json'' @ body @ str ''```'') = body"
proof -
  have h: "\<not> is_space 96" by (simp add: is_space_def)
  have "py_strip (96 # (str ''``json'' @ body @ str ''``'') @ [96])
          = 96 # (str ''``json'' @ body @ str ''``'') @ [96]"
    by (rule py_strip_id [OF h h])
  then have s: "py_strip (str ''```json'' @ body @ str ''```'') = str ''```json'' @ body @ str ''```''"
    by simp
  have a: "startswith (str ''```json'' @ body @ str ''```'') (str ''```json'')"
    by (rule startswith_append)
  have b: "endswith (body @ str ''```'') (str ''```'')" by (rule endswith_append)
  have c: "drop 7 (str ''```json'' @ body @ str ''```'') = body @ str ''```''" by simp
  show ?thesis
    unfolding clean_content_def s Let_def using a b by (simp only: c if_True) simp
qed

text \<open>A text from an opening to a closing brace is left as it is.\<close>

lemma clean_content_object:
  "clean_content (ord CHR ''{'' # mid @ str ''}'') = ord CHR ''{'' # mid @ str ''}''"
proof -
  have "py_strip (123 # mid @ [125]) = 123 # mid @ [125]"
    by (rule py_strip_id) (simp_all add: is_space_def)
  then have s: "py_strip (ord CHR ''{'' # mid @ str ''}'') = ord CHR ''{'' # mid @ str ''}''"
    by simp
  have a: "\<not> startswith (ord CHR ''{'' # mid @ str ''}'') (str ''```json'')"
    using startswith_differs [of 123 96 "mid @ [125]" "str ''``json''"] by simp
  have b: "\<not> endswith (ord CHR ''{'' # mid @ str ''}'') (str ''```'')"
    using endswith_differs [of 125 96 "123 # mid" "str ''``''"] by simp
  show ?thesis
    unfolding clean_content_def s Let_def using a b by (simp only: if_False)
qed

section \<open>The weekday label\<close>

text \<open>
  Claim C8. The weekday label is computed from \<open>report_date\<close> read as month/day/year:
  \<^verbatim>\<open>"03/10/2025"\<close> is the 10th of March 2025 and gives \<^verbatim>\<open>"Lunes"\<close> (and \<^verbatim>\<open>"10/03/2025"\<close>,
  the 3rd of October, gives \<^verbatim>\<open>"Viernes"\<close>). Whenever the parse
  fails, for a string in another format or a value that is no string, the label is the
  sentinel \<^verbatim>\<open>"Desconocido"\<close>. The computation raises nothing: for every input the label
  is the sentinel or one of the seven names, so the index into \<open>days\<close> is always in
  range.
\<close>

theorem weekday_label:
  "strptime U (PStr (str ''03/10/2025'')) = Inr \<lparr>year = 2025, month = 3, day = 10\<rparr>
   \<and> day_of_week U (PStr (str ''03/10/2025'')) = str ''Lunes''
   \<and> day_of_week U (PStr (str ''10/03/2025'')) = str ''Viernes''
   \<and> (\<forall>v e. strptime U v = Inl e \<longrightarrow> day_of_week U v = str ''Desconocido'')
   \<and> (\<forall>v. day_of_week U v \<in> set (str ''Desconocido'' # days))"
proof -
  have p: "strptime U (PStr (str ''03/10/2025'')) = Inr \<lparr>year = 2025, month = 3, day = 10\<rparr>"
    by (simp add: strptime_def days_in_month_def is_leap_def decimal_def between_def)
  have w: "weekday \<lparr>year = 2025, month = 3, day = 10\<rparr> = 0"
    by (simp add: weekday_def toordinal_def days_before_year_def days_before_month_def
        is_leap_def)
  have l: "day_of_week U (PStr (str ''03/10/2025'')) = str ''Lunes''"
    unfolding day_of_week_def p by (simp add: w days_def)
  have o: "day_of_week U (PStr (str ''10/03/2025'')) = str ''Viernes''"
    by (simp add: day_of_week_def strptime_def days_in_month_def is_leap_def decimal_def
        between_def weekday_def toordinal_def days_before_year_def days_before_month_def
        days_def)
  have f: "\<forall>v e. strptime U v = Inl e \<longrightarrow> day_of_week U v = str ''Desconocido''"
    by (simp add: day_of_week_def)
  have t: "day_of_week U v \<in> set (str ''Desconocido'' # days)" for v
  proof (cases "strptime U v")
    case (Inl e)
    then show ?thesis by (simp add: day_of_week_def)
  next
    case (Inr dt)
    have "weekday dt < length days" by (simp add: weekday_def days_def)
    then have "days ! weekday dt \<in> set days" by (rule nth_mem)
    with Inr show ?thesis by (simp add: day_of_week_def)
  qed
  from p l o f t show ?thesis by blast
qed

text \<open>The default of a record without \<^verbatim>\<open>Date\<close> field does not parse and gives the sentinel.\<close>

theorem weekday_label_witness:
  "strptime sample_ucd (PStr (str ''Fecha desconocida''))
     = Inl (Exception (str ''time data does not match format''))
   \<and> day_of_week sample_ucd (PStr (str ''Fecha desconocida'')) = str ''Desconocido''"
proof -
  have a: "strptime sample_ucd (PStr (str ''Fecha desconocida''))
             = Inl (Exception (str ''time data does not match format''))"
    by (simp add: strptime_def)
  from weekday_label [of sample_ucd]
  have "\<forall>v e. strptime sample_ucd v = Inl e \<longrightarrow> day_of_week sample_ucd v = str ''Desconocido''"
    by (rule conjunct1 [OF conjunct2 [OF conjunct2 [OF conjunct2]]])
  with a show ?thesis by blast
qed

section \<open>Retry and backoff\<close>

text \<open>A model call that raises makes the attempt fail with that exception.\<close>

lemma try_once_raises: "generate_content E n p = Raises e \<Longrightarrow> try_once E n p = Inl e"
  by (simp add: try_once_def)

text \<open>The three places at which the retry loop can end with an exception.\<close>

lemma attempts_first_fails:
  assumes "try_once E (calls s) p = Inl (Exception m)" and "\<not> contains (str ''429'') m"
  shows "attempts E p max_retries 0 5 s = (Inl (Exception m), s\<lparr>calls := calls s + 1\<rparr>)"
  using assms by (simp add: max_retries_def numeral_3_eq_3 Let_def)

lemma attempts_second_fails:
  assumes "try_once E (calls s) p = Inl (Exception m1)" and "contains (str ''429'') m1"
    and "try_once E (calls s + 1) p = Inl (Exception m)" and "\<not> contains (str ''429'') m"
  shows "attempts E p max_retries 0 5 s
           = (Inl (Exception m), s\<lparr>calls := calls s + 2, slept := slept s @ [5]\<rparr>)"
  using assms by (simp add: max_retries_def numeral_3_eq_3 Let_def)

text \<open>Two rate-limit errors in a row: the loop sleeps 5 and 10 and makes its third call.\<close>

lemma attempts_three_429:
  assumes "try_once E (calls s) p = Inl (Exception m1)" and "contains (str ''429'') m1"
    and "try_once E (calls s + 1) p = Inl (Exception m2)" and "contains (str ''429'') m2"
  shows "attempts E p max_retries 0 5 s =
           (case try_once E (calls s + 2) p of
              Inr v \<Rightarrow> (Inr v, s\<lparr>calls := calls s + 3, slept := slept s @ [5, 10]\<rparr>)
            | Inl e \<Rightarrow> (Inl e, s\<lparr>calls := calls s + 3, slept := slept s @ [5, 10]\<rparr>))"
  using assms
  by (simp add: max_retries_def numeral_3_eq_3 Let_def split: sum.splits exn.splits)

text \<open>
  The whole extraction after two rate-limit errors: whatever the third call does decides
  the result, and the two pauses have been slept.
\<close>

lemma synthesize_after_two_429:
  assumes key: "truthy api_key" and cfg: "configure E api_key = None"
    and p: "p = \<lparr>p_day = day_of_week (unicode E) report_date, p_report_date = report_date,
                 p_text = text\<rparr>"
    and 1: "try_once E (calls s) p = Inl (Exception m1)" "contains (str ''429'') m1"
    and 2: "try_once E (calls s + 1) p = Inl (Exception m2)" "contains (str ''429'') m2"
  shows "synthesize_and_extract E text report_date api_key s =
           (case try_once E (calls s + 2) p of
              Inr v \<Rightarrow> (Inr v, s\<lparr>calls := calls s + 3, slept := slept s @ [5, 10]\<rparr>)
            | Inl (Exception m) \<Rightarrow>
                (Inr (degraded m), s\<lparr>calls := calls s + 3, slept := slept s @ [5, 10]\<rparr>)
            | Inl (BaseException m) \<Rightarrow>
                (Inl (BaseException m), s\<lparr>calls := calls s + 3, slept := slept s @ [5, 10]\<rparr>))"
  unfolding synthesize_and_extract_def Let_def p [symmetric]
  using key cfg
  by (simp add: attempts_three_429 [OF 1 2] split: sum.splits exn.splits)

text \<open>
  Claim C5. When the call to the language model raises a rate-limit error (an exception
  whose message contains \<^verbatim>\<open>429\<close>) on the first and on the second attempt and the third
  attempt returns a response that \<^verbatim>\<open>json.loads\<close> accepts, the extraction returns the
  parsed annotation after exactly three calls, and the pauses slept are 5 and then 10.
\<close>

theorem retry_then_success:
  assumes "truthy api_key" and "configure E api_key = None"
    and "p = \<lparr>p_day = day_of_week (unicode E) report_date, p_report_date = report_date,
              p_text = text\<rparr>"
    and "generate_content E (calls s) p = Raises (Exception m1)" and "contains (str ''429'') m1"
    and "generate_content E (calls s + 1) p = Raises (Exception m2)" and "contains (str ''429'') m2"
    and "generate_content E (calls s + 2) p = Returns reply"
    and "loads E (clean_content reply) = Inr v"
  shows "synthesize_and_extract E text report_date api_key s =
           (Inr v, s\<lparr>calls := calls s + 3, slept := slept s @ [5, 10]\<rparr>)"
proof -
  have "try_once E (calls s + 2) p = Inr v"
    using assms(8,9) by (simp add: try_once_def parse_response_def)
  then show ?thesis
    using synthesize_after_two_429 [OF assms(1-3) try_once_raises [OF assms(4)] assms(5)
        try_once_raises [OF assms(6)] assms(7)]
    by simp
qed

text \<open>Facts about the sample collaborators.\<close>

lemma sample_reply:
  \<open>clean_content (str ''```json{"es_anonima": "si"}```'') = str ''{"es_anonima": "si"}''\<close>
  using clean_content_fenced [of \<open>str ''{"es_anonima": "si"}''\<close>] by simp

lemma contains_429: "contains (str ''429'') (str ''429 Resource exhausted'')"
  by (simp add: startswith_def)

lemma no_429_in_503: "\<not> contains (str ''429'') (str ''503 Service unavailable'')"
  by (simp add: startswith_def)

lemma no_429_in_expecting:
  "\<not> contains (str ''429'') (str ''Expecting value: line 1 column 1 (char 0)'')"
  by (simp add: startswith_def)

text \<open>A model rate-limited twice that then answers with a fenced object.\<close>

theorem retry_then_success_witness:
  "synthesize_and_extract third_time_lucky (PStr (str ''Me pidieron dinero''))
     (PStr (str ''03/10/2025'')) (PStr (str ''key'')) init_state
   = (Inr (PDict [(str ''es_anonima'', PStr (str ''si''))]),
      init_state\<lparr>calls := 3, slept := [5, 10]\<rparr>)"
proof -
  have l: \<open>loads third_time_lucky (clean_content (str ''```json{"es_anonima": "si"}```''))
           = Inr (PDict [(str ''es_anonima'', PStr (str ''si''))])\<close>
    unfolding sample_reply
    by (simp add: third_time_lucky_def sample_loads_def json_trim_def json_ws_def)
  show ?thesis
    using retry_then_success [of "PStr (str ''key'')" third_time_lucky _
        "PStr (str ''03/10/2025'')" "PStr (str ''Me pidieron dinero'')" init_state
        "str ''429 Resource exhausted''" "str ''429 Resource exhausted''",
        OF _ _ refl _ contains_429 _ contains_429 _ l]
    by (simp add: third_time_lucky_def init_state_def)
qed

text \<open>
  Claim C3, as amended. When the call to the language model raises a rate-limit error on
  all three attempts, the third error is raised out of the retry loop (line 101) and
  caught by the handler of line 102: the extraction returns to its caller the degraded
  annotation built from the message of the third error, having slept 5 and 10. Nothing
  is raised to the caller.
\<close>

theorem exhaustion_is_degraded:
  assumes "truthy api_key" and "configure E api_key = None"
    and "p = \<lparr>p_day = day_of_week (unicode E) report_date, p_report_date = report_date,
              p_text = text\<rparr>"
    and "generate_content E (calls s) p = Raises (Exception m1)" and "contains (str ''429'') m1"
    and "generate_content E (calls s + 1) p = Raises (Exception m2)" and "contains (str ''429'') m2"
    and "generate_content E (calls s + 2) p = Raises (Exception m3)" and "contains (str ''429'') m3"
  shows "synthesize_and_extract E text report_date api_key s =
           (Inr (degraded m3), s\<lparr>calls := calls s + 3, slept := slept s @ [5, 10]\<rparr>)"
proof -
  have "try_once E (calls s + 2) p = Inl (Exception m3)"
    using assms(8) by (rule try_once_raises)
  then show ?thesis
    using synthesize_after_two_429 [OF assms(1-3) try_once_raises [OF assms(4)] assms(5)
        try_once_raises [OF assms(6)] assms(7)]
    by simp
qed

text \<open>The model that always answers 429.\<close>

theorem exhaustion_is_degraded_witness:
  "synthesize_and_extract always_429 (PStr (str ''Me pidieron dinero''))
     (PStr (str ''03/10/2025'')) (PStr (str ''key'')) init_state
   = (Inr (degraded (str ''429 Resource exhausted'')),
      init_state\<lparr>calls := 3, slept := [5, 10]\<rparr>)"
  using exhaustion_is_degraded [of "PStr (str ''key'')" always_429 _
      "PStr (str ''03/10/2025'')" "PStr (str ''Me pidieron dinero'')" init_state
      "str ''429 Resource exhausted''" "str ''429 Resource exhausted''"
      "str ''429 Resource exhausted''",
      OF _ _ refl _ contains_429 _ contains_429 _ contains_429]
  by (simp add: always_429_def init_state_def)

text \<open>
  Claim C3 as stated fails: with a model that answers 429 three times the extraction
  returns a dict, it does not raise the rate-limit error.
\<close>

theorem exhaustion_not_raised:
  "fst (synthesize_and_extract always_429 (PStr (str ''Me pidieron dinero''))
          (PStr (str ''03/10/2025'')) (PStr (str ''key'')) init_state)
     = Inr (PDict [(str ''sintesis'', PStr (str ''Error: 429 Resource exhausted'')),
                   (str ''tiempo'', PStr (str ''Error'')), (str ''modo'', PStr (str ''Error'')),
                   (str ''circunstancia'', PStr (str ''Error'')),
                   (str ''alcaldia'', PStr (str ''Error'')),
                   (str ''es_anonima'', PStr (str ''Error''))])
   \<and> fst (synthesize_and_extract always_429 (PStr (str ''Me pidieron dinero''))
          (PStr (str ''03/10/2025'')) (PStr (str ''key'')) init_state)
     \<noteq> Inl (Exception (str ''429 Resource exhausted''))"
proof -
  let ?p = "\<lparr>p_day = day_of_week (unicode always_429) (PStr (str ''03/10/2025'')),
             p_report_date = PStr (str ''03/10/2025''),
             p_text = PStr (str ''Me pidieron dinero'')\<rparr>"
  have t: "try_once always_429 n ?p = Inl (Exception (str ''429 Resource exhausted''))" for n
    by (simp add: try_once_def always_429_def)
  have "synthesize_and_extract always_429 (PStr (str ''Me pidieron dinero''))
          (PStr (str ''03/10/2025'')) (PStr (str ''key'')) init_state =
        (case try_once always_429 (calls init_state + 2) ?p of
              Inr v \<Rightarrow> (Inr v, init_state\<lparr>calls := calls init_state + 3,
                                         slept := slept init_state @ [5, 10]\<rparr>)
            | Inl (Exception m) \<Rightarrow>
                (Inr (degraded m), init_state\<lparr>calls := calls init_state + 3,
                                             slept := slept init_state @ [5, 10]\<rparr>)
            | Inl (BaseException m) \<Rightarrow>
                (Inl (BaseException m), init_state\<lparr>calls := calls init_state + 3,
                                                  slept := slept init_state @ [5, 10]\<rparr>))"
    by (rule synthesize_after_two_429 [OF _ _ refl t contains_429 t contains_429])
       (simp_all add: always_429_def)
  then show ?thesis unfolding t by (simp add: degraded_def)
qed

section \<open>Failures that are not retried\<close>

text \<open>
  Claim C4, as amended. The extraction never raises an exception of class
  \<^verbatim>\<open>Exception\<close> to its caller. Every failure that is not retried gives the degraded
  annotation built from its message, with no further call to the model: a failure of
  the configuration; a failure of the first attempt (in the model or in \<^verbatim>\<open>json.loads\<close>)
  whose message does not contain \<^verbatim>\<open>429\<close>; such a failure of the second attempt, after
  one rate-limit error and one pause of 5; and whatever failure of the third attempt,
  after two rate-limit errors and the pauses 5 and 10. In the degraded annotation
  \<^verbatim>\<open>sintesis\<close> is \<^verbatim>\<open>"Error: "\<close> followed by the message and each of the other five fields
  is the plain word \<^verbatim>\<open>"Error"\<close>.
\<close>

theorem failure_is_degraded:
  assumes "p = \<lparr>p_day = day_of_week (unicode E) report_date, p_report_date = report_date,
                p_text = text\<rparr>"
  shows
  "(\<forall>m'. fst (synthesize_and_extract E text report_date api_key s) \<noteq> Inl (Exception m'))
   \<and> (truthy api_key \<and> configure E api_key = Some (Exception m) \<longrightarrow>
        synthesize_and_extract E text report_date api_key s = (Inr (degraded m), s))
   \<and> (truthy api_key \<and> configure E api_key = None
        \<and> try_once E (calls s) p = Inl (Exception m) \<and> \<not> contains (str ''429'') m \<longrightarrow>
        synthesize_and_extract E text report_date api_key s
          = (Inr (degraded m), s\<lparr>calls := calls s + 1\<rparr>))
   \<and> (truthy api_key \<and> configure E api_key = None
        \<and> try_once E (calls s) p = Inl (Exception m1) \<and> contains (str ''429'') m1
        \<and> try_once E (calls s + 1) p = Inl (Exception m) \<and> \<not> contains (str ''429'') m \<longrightarrow>
        synthesize_and_extract E text report_date api_key s
          = (Inr (degraded m), s\<lparr>calls := calls s + 2, slept := slept s @ [5]\<rparr>))
   \<and> (truthy api_key \<and> configure E api_key = None
        \<and> try_once E (calls s) p = Inl (Exception m1) \<and> contains (str ''429'') m1
        \<and> try_once E (calls s + 1) p = Inl (Exception m2) \<and> contains (str ''429'') m2
        \<and> try_once E (calls s + 2) p = Inl (Exception m) \<longrightarrow>
        synthesize_and_extract E text report_date api_key s
          = (Inr (degraded m), s\<lparr>calls := calls s + 3, slept := slept s @ [5, 10]\<rparr>))
   \<and> degraded m = PDict [(str ''sintesis'', PStr (str ''Error: '' @ m)),
                         (str ''tiempo'', PStr (str ''Error'')),
                         (str ''modo'', PStr (str ''Error'')),
                         (str ''circunstancia'', PStr (str ''Error'')),
                         (str ''alcaldia'', PStr (str ''Error'')),
                         (str ''es_anonima'', PStr (str ''Error''))]"
proof -
  note p = assms
  have a: "fst (synthesize_and_extract E text report_date api_key s) \<noteq> Inl (Exception m')" for m'
    by (simp add: synthesize_and_extract_def Let_def
        split: prod.splits sum.splits exn.splits option.splits)
  have b: "synthesize_and_extract E text report_date api_key s = (Inr (degraded m), s)"
    if "truthy api_key" "configure E api_key = Some (Exception m)"
    using that by (simp add: synthesize_and_extract_def)
  have c: "synthesize_and_extract E text report_date api_key s
          = (Inr (degraded m), s\<lparr>calls := calls s + 1\<rparr>)"
    if "truthy api_key" "configure E api_key = None"
      "try_once E (calls s) p = Inl (Exception m)" "\<not> contains (str ''429'') m"
    unfolding synthesize_and_extract_def Let_def p [symmetric]
    using that(1,2) attempts_first_fails [OF that(3,4)] by simp
  have d: "synthesize_and_extract E text report_date api_key s
          = (Inr (degraded m), s\<lparr>calls := calls s + 2, slept := slept s @ [5]\<rparr>)"
    if "truthy api_key" "configure E api_key = None"
      "try_once E (calls s) p = Inl (Exception m1)" "contains (str ''429'') m1"
      "try_once E (calls s + 1) p = Inl (Exception m)" "\<not> contains (str ''429'') m"
    unfolding synthesize_and_extract_def Let_def p [symmetric]
    using that(1,2) attempts_second_fails [OF that(3,4,5,6)] by simp
  have e: "synthesize_and_extract E text report_date api_key s
          = (Inr (degraded m), s\<lparr>calls := calls s + 3, slept := slept s @ [5, 10]\<rparr>)"
    if "truthy api_key" "configure E api_key = None"
      "try_once E (calls s) p = Inl (Exception m1)" "contains (str ''429'') m1"
      "try_once E (calls s + 1) p = Inl (Exception m2)" "contains (str ''429'') m2"
      "try_once E (calls s + 2) p = Inl (Exception m)"
    using synthesize_after_two_429 [OF that(1,2) p that(3,4,5,6)] that(7) by simp
  have f: "degraded m = PDict [(str ''sintesis'', PStr (str ''Error: '' @ m)),
                         (str ''tiempo'', PStr (str ''Error'')),
                         (str ''modo'', PStr (str ''Error'')),
                         (str ''circunstancia'', PStr (str ''Error'')),
                         (str ''alcaldia'', PStr (str ''Error'')),
                         (str ''es_anonima'', PStr (str ''Error''))]"
    by (simp add: degraded_def)
  from a b c d e f show ?thesis by blast
qed

text \<open>The model that answers in prose, and the one that is down after one rate limit.\<close>

lemma not_json_fails:
  "try_once not_json n p = Inl (Exception (str ''Expecting value: line 1 column 1 (char 0)''))"
  by (simp add: try_once_def not_json_def parse_response_def clean_content_def py_strip_def
      is_space_def startswith_def endswith_def sample_loads_def json_trim_def json_ws_def Let_def)

lemma limited_then_down_fails:
  "try_once limited_then_down 0 p = Inl (Exception (str ''429 Resource exhausted''))"
  "try_once limited_then_down (Suc 0) p = Inl (Exception (str ''503 Service unavailable''))"
  by (simp_all add: try_once_def limited_then_down_def)

text \<open>
  A response that is no JSON: one call, no pause, the degraded annotation. A failure
  without \<^verbatim>\<open>429\<close> at the second attempt: two calls, one pause of 5, the degraded
  annotation, and no third call.
\<close>

theorem failure_is_degraded_witness:
  "synthesize_and_extract not_json (PStr (str ''Me pidieron dinero''))
     (PStr (str ''03/10/2025'')) (PStr (str ''key'')) init_state
   = (Inr (degraded (str ''Expecting value: line 1 column 1 (char 0)'')),
      init_state\<lparr>calls := 1\<rparr>)
   \<and> synthesize_and_extract limited_then_down (PStr (str ''Me pidieron dinero''))
     (PStr (str ''03/10/2025'')) (PStr (str ''key'')) init_state
   = (Inr (degraded (str ''503 Service unavailable'')),
      init_state\<lparr>calls := 2, slept := [5]\<rparr>)"
proof -
  let ?p = "\<lambda>E. \<lparr>p_day = day_of_week (unicode E) (PStr (str ''03/10/2025'')),
                   p_report_date = PStr (str ''03/10/2025''),
                   p_text = PStr (str ''Me pidieron dinero'')\<rparr>"
  have k: "truthy (PStr (str ''key''))" by simp
  have c1: "configure not_json (PStr (str ''key'')) = None" by (simp add: not_json_def)
  have c2: "configure limited_then_down (PStr (str ''key'')) = None"
    by (simp add: limited_then_down_def)
  have t0: "try_once limited_then_down (calls init_state) (?p limited_then_down)
              = Inl (Exception (str ''429 Resource exhausted''))"
    by (simp add: init_state_def limited_then_down_fails)
  have t1: "try_once limited_then_down (calls init_state + 1) (?p limited_then_down)
              = Inl (Exception (str ''503 Service unavailable''))"
    by (simp add: init_state_def limited_then_down_fails)
  have i1: "truthy (PStr (str ''key'')) \<and> configure not_json (PStr (str ''key'')) = None
      \<and> try_once not_json (calls init_state) (?p not_json)
          = Inl (Exception (str ''Expecting value: line 1 column 1 (char 0)''))
      \<and> \<not> contains (str ''429'') (str ''Expecting value: line 1 column 1 (char 0)'')
     \<longrightarrow> synthesize_and_extract not_json (PStr (str ''Me pidieron dinero''))
           (PStr (str ''03/10/2025'')) (PStr (str ''key'')) init_state
         = (Inr (degraded (str ''Expecting value: line 1 column 1 (char 0)'')),
            init_state\<lparr>calls := calls init_state + 1\<rparr>)"
    by (rule conjunct1 [OF conjunct2 [OF conjunct2 [OF failure_is_degraded [OF refl]]]])
  have i2: "truthy (PStr (str ''key'')) \<and> configure limited_then_down (PStr (str ''key'')) = None
      \<and> try_once limited_then_down (calls init_state) (?p limited_then_down)
          = Inl (Exception (str ''429 Resource exhausted''))
      \<and> contains (str ''429'') (str ''429 Resource exhausted'')
      \<and> try_once limited_then_down (calls init_state + 1) (?p limited_then_down)
          = Inl (Exception (str ''503 Service unavailable''))
      \<and> \<not> contains (str ''429'') (str ''503 Service unavailable'')
     \<longrightarrow> synthesize_and_extract limited_then_down (PStr (str ''Me pidieron dinero''))
           (PStr (str ''03/10/2025'')) (PStr (str ''key'')) init_state
         = (Inr (degraded (str ''503 Service unavailable'')),
            init_state\<lparr>calls := calls init_state + 2, slept := slept init_state @ [5]\<rparr>)"
    by (rule conjunct1 [OF conjunct2 [OF conjunct2 [OF conjunct2
          [OF failure_is_degraded [OF refl]]]]])
  have 1: "synthesize_and_extract not_json (PStr (str ''Me pidieron dinero''))
           (PStr (str ''03/10/2025'')) (PStr (str ''key'')) init_state
         = (Inr (degraded (str ''Expecting value: line 1 column 1 (char 0)'')),
            init_state\<lparr>calls := calls init_state + 1\<rparr>)"
    by (rule mp [OF i1]) (intro conjI k c1 not_json_fails no_429_in_expecting)
  have 2: "synthesize_and_extract limited_then_down (PStr (str ''Me pidieron dinero''))
           (PStr (str ''03/10/2025'')) (PStr (str ''key'')) init_state
         = (Inr (degraded (str ''503 Service unavailable'')),
            init_state\<lparr>calls := calls init_state + 2, slept := slept init_state @ [5]\<rparr>)"
    by (rule mp [OF i2]) (intro conjI k c2 t0 t1 contains_429 no_429_in_503)
  show ?thesis unfolding 1 2 by (simp add: init_state_def)
qed

text \<open>
  Claim C4 as stated fails: in the degraded annotation the field \<^verbatim>\<open>tiempo\<close> (like
  \<^verbatim>\<open>modo\<close>, \<^verbatim>\<open>circunstancia\<close>, \<^verbatim>\<open>alcaldia\<close> and \<^verbatim>\<open>es_anonima\<close>) is \<^verbatim>\<open>"Error"\<close>, which is
  not \<^verbatim>\<open>"Error: "\<close> followed by the message.
\<close>

theorem degraded_fields_differ:
  "fst (synthesize_and_extract not_json (PStr (str ''Me pidieron dinero''))
          (PStr (str ''03/10/2025'')) (PStr (str ''key'')) init_state)
     = Inr (PDict [(str ''sintesis'',
                      PStr (str ''Error: Expecting value: line 1 column 1 (char 0)'')),
                   (str ''tiempo'', PStr (str ''Error'')), (str ''modo'', PStr (str ''Error'')),
                   (str ''circunstancia'', PStr (str ''Error'')),
                   (str ''alcaldia'', PStr (str ''Error'')),
                   (str ''es_anonima'', PStr (str ''Error''))])
   \<and> PStr (str ''Error'') \<noteq> PStr (str ''Error: Expecting value: line 1 column 1 (char 0)'')"
proof -
  have "attempts not_json
          \<lparr>p_day = day_of_week (unicode not_json) (PStr (str ''03/10/2025'')),
           p_report_date = PStr (str ''03/10/2025''),
           p_text = PStr (str ''Me pidieron dinero'')\<rparr> max_retries 0 5 init_state
        = (Inl (Exception (str ''Expecting value: line 1 column 1 (char 0)'')),
           init_state\<lparr>calls := calls init_state + 1\<rparr>)"
    by (rule attempts_first_fails [OF not_json_fails no_429_in_expecting])
  then have "fst (synthesize_and_extract not_json (PStr (str ''Me pidieron dinero''))
          (PStr (str ''03/10/2025'')) (PStr (str ''key'')) init_state)
        = Inr (degraded (str ''Expecting value: line 1 column 1 (char 0)''))"
    by (simp add: synthesize_and_extract_def not_json_def)
  then show ?thesis by (simp add: degraded_def)
qed

section \<open>Fence stripping\<close>

lemma clean_content_pad:
  "list_all is_space a \<Longrightarrow> list_all is_space b \<Longrightarrow> clean_content (a @ x @ b) = clean_content x"
  by (simp add: clean_content_def py_strip_pad)

lemma json_ws_all_space: "list_all json_ws w \<Longrightarrow> list_all is_space w"
  by (induction w) (simp_all add: json_ws_is_space)

text \<open>
  Claim C7, as amended. Take a JSON object (a text from \<^verbatim>\<open>{\<close> to \<^verbatim>\<open>}\<close> that \<^verbatim>\<open>json.loads\<close>
  accepts), with nothing but JSON white space (space, tab, line feed, carriage return)
  around it. The response that wraps it between the opening marker \<^verbatim>\<open>```json\<close> and the
  closing marker \<^verbatim>\<open>```\<close> is cleaned to exactly the text between the markers, and it
  parses to the same value as the response without the markers. White space around
  either response is stripped first. The library fact used is that \<^verbatim>\<open>json.loads\<close> skips
  JSON white space around a document it accepts. An opening marker without the
  \<^verbatim>\<open>json\<close> tag is not taken off.
\<close>

theorem fenced_parses_like_unfenced:
  assumes lib: "\<forall>a b t r. list_all json_ws a \<and> list_all json_ws b \<and> loads E t = Inr r
                  \<longrightarrow> loads E (a @ t @ b) = Inr r"
    and ok: "loads E (ord CHR ''{'' # mid @ str ''}'') = Inr v"
    and ws: "list_all json_ws w1" "list_all json_ws w2"
    and outer: "list_all is_space o1" "list_all is_space o2"
  shows "clean_content (o1 @ str ''```json'' @ w1 @ (ord CHR ''{'' # mid @ str ''}'') @ w2
                          @ str ''```'' @ o2)
           = w1 @ (ord CHR ''{'' # mid @ str ''}'') @ w2
       \<and> clean_content (o1 @ w1 @ (ord CHR ''{'' # mid @ str ''}'') @ w2 @ o2)
           = ord CHR ''{'' # mid @ str ''}''
       \<and> parse_response E (o1 @ str ''```json'' @ w1 @ (ord CHR ''{'' # mid @ str ''}'') @ w2
                             @ str ''```'' @ o2)
           = parse_response E (o1 @ w1 @ (ord CHR ''{'' # mid @ str ''}'') @ w2 @ o2)
       \<and> parse_response E (o1 @ w1 @ (ord CHR ''{'' # mid @ str ''}'') @ w2 @ o2) = Inr v"
proof -
  let ?obj = "ord CHR ''{'' # mid @ str ''}''"
  have "clean_content (o1 @ (str ''```json'' @ (w1 @ ?obj @ w2) @ str ''```'') @ o2)
          = clean_content (str ''```json'' @ (w1 @ ?obj @ w2) @ str ''```'')"
    using outer by (rule clean_content_pad)
  then have f: "clean_content (o1 @ str ''```json'' @ w1 @ ?obj @ w2 @ str ''```'' @ o2)
                  = w1 @ ?obj @ w2"
    unfolding clean_content_fenced by simp
  have "list_all is_space (o1 @ w1)" "list_all is_space (w2 @ o2)"
    using ws outer by (simp_all add: json_ws_all_space)
  then have "clean_content ((o1 @ w1) @ ?obj @ (w2 @ o2)) = clean_content ?obj"
    by (rule clean_content_pad)
  then have u: "clean_content (o1 @ w1 @ ?obj @ w2 @ o2) = ?obj"
    unfolding clean_content_object by simp
  have "loads E (w1 @ ?obj @ w2) = Inr v"
    using lib ok ws by blast
  with f u ok show ?thesis
    by (simp add: parse_response_def)
qed

lemma sample_loads_pad:
  "list_all json_ws a \<Longrightarrow> list_all json_ws b \<Longrightarrow> sample_loads (a @ t @ b) = sample_loads t"
  by (simp add: sample_loads_def json_trim_pad)

text \<open>A fenced object on lines of its own.\<close>

theorem fenced_parses_like_unfenced_witness:
  \<open>parse_response third_time_lucky
     ([10] @ str ''```json'' @ [10] @ str ''{"es_anonima": "si"}'' @ [10] @ str ''```'' @ [10])
   = parse_response third_time_lucky
      ([10] @ [10] @ str ''{"es_anonima": "si"}'' @ [10] @ [10])
   \<and> parse_response third_time_lucky
      ([10] @ [10] @ str ''{"es_anonima": "si"}'' @ [10] @ [10])
     = Inr (PDict [(str ''es_anonima'', PStr (str ''si''))])\<close>
proof -
  have lib: "\<forall>a b t r. list_all json_ws a \<and> list_all json_ws b \<and> loads third_time_lucky t = Inr r
                  \<longrightarrow> loads third_time_lucky (a @ t @ b) = Inr r"
    by (simp add: third_time_lucky_def sample_loads_pad)
  have ok: \<open>loads third_time_lucky (ord CHR ''{'' # str ''"es_anonima": "si"'' @ str ''}'')
            = Inr (PDict [(str ''es_anonima'', PStr (str ''si''))])\<close>
    by (simp add: third_time_lucky_def sample_loads_def json_trim_def json_ws_def)
  have ws: "list_all json_ws [10]" by (simp add: json_ws_def)
  have sp: "list_all is_space [10]" by (simp add: is_space_def)
  show ?thesis
    using fenced_parses_like_unfenced [OF lib ok ws ws sp sp] by simp
qed

text \<open>
  Claim C7 as stated fails: around the object \<^verbatim>\<open>{}\<close> on a line of its own, the plain
  marker \<^verbatim>\<open>```\<close> is a leading code-fence marker too, but the code takes off only the
  trailing one. What is left does not parse, while the object without the fence does.
\<close>

theorem plain_fence_not_stripped:
  "clean_content (str ''```'' @ [10] @ str ''{}'' @ [10] @ str ''```'')
     = str ''```'' @ [10] @ str ''{}'' @ [10]
   \<and> parse_response not_json (str ''```'' @ [10] @ str ''{}'' @ [10] @ str ''```'')
     = Inl (Exception (str ''Expecting value: line 1 column 1 (char 0)''))
   \<and> parse_response not_json ([10] @ str ''{}'' @ [10]) = Inr (PDict [])"
  by (simp add: parse_response_def clean_content_def py_strip_def is_space_def startswith_def
      endswith_def not_json_def sample_loads_def json_trim_def json_ws_def Let_def)

section \<open>What the extraction leaves untouched, and the counters of the loop\<close>

text \<open>
  The extraction sleeps and calls the model; it never touches the batch, its counter, the
  committed batches or the number of processed records.
\<close>

lemma attempts_frame:
  "attempts E p k attempt retry_delay s = (r, s') \<Longrightarrow>
     batch s' = batch s \<and> batch_count s' = batch_count s \<and> committed s' = committed s
     \<and> processed_count s' = processed_count s"
proof (induction k arbitrary: attempt retry_delay s)
  case 0
  then show ?case by simp
next
  case (Suc k)
  show ?case
  proof (cases "try_once E (calls s) p")
    case (Inr v)
    with Suc.prems show ?thesis by (auto simp: Let_def)
  next
    case (Inl e)
    show ?thesis
    proof (cases e)
      case (BaseException m)
      with Inl Suc.prems show ?thesis by (auto simp: Let_def)
    next
      case (Exception m)
      show ?thesis
      proof (cases "contains (str ''429'') m \<and> attempt < max_retries - 1")
        case False
        with Inl Exception Suc.prems show ?thesis by (auto simp: Let_def)
      next
        case True
        with Inl Exception Suc.prems
        have "attempts E p k (Suc attempt) (retry_delay * 2)
                (s\<lparr>calls := Suc (calls s), slept := slept s @ [retry_delay]\<rparr>) = (r, s')"
          by (simp add: Let_def)
        from Suc.IH [OF this] show ?thesis by simp
      qed
    qed
  qed
qed

lemma synthesize_frame:
  assumes "synthesize_and_extract E text report_date api_key s = (r, s')"
  shows "batch s' = batch s \<and> batch_count s' = batch_count s \<and> committed s' = committed s
     \<and> processed_count s' = processed_count s"
proof (cases "truthy api_key \<and> configure E api_key = None")
  case False
  with assms show ?thesis
    by (auto simp: synthesize_and_extract_def split: if_splits option.splits exn.splits)
next
  case True
  obtain r0 s0 where a: "attempts E \<lparr>p_day = day_of_week (unicode E) report_date, p_report_date = report_date,
      p_text = text\<rparr> max_retries 0 5 s = (r0, s0)"
    by (cases "attempts E \<lparr>p_day = day_of_week (unicode E) report_date, p_report_date = report_date,
      p_text = text\<rparr> max_retries 0 5 s")
  with True assms have "s' = s0"
    by (auto simp: synthesize_and_extract_def split: sum.splits exn.splits)
  with attempts_frame [OF a] show ?thesis by simp
qed

lemma enrich_frame:
  assumes "enrich_doc E api_key doc s = (r, s')"
  shows "batch s' = batch s \<and> batch_count s' = batch_count s \<and> committed s' = committed s
     \<and> processed_count s' = processed_count s"
proof (cases "truthy (dict_get (doc_fields doc) (str ''Transcript'') (PStr []))")
  case False
  with assms show ?thesis by (simp add: enrich_doc_def)
next
  case True
  obtain r0 s0 where a: "synthesize_and_extract E (dict_get (doc_fields doc) (str ''Transcript'') (PStr []))
      (dict_get (doc_fields doc) (str ''Date'') (PStr (str ''Fecha desconocida''))) api_key s = (r0, s0)"
    by (cases "synthesize_and_extract E (dict_get (doc_fields doc) (str ''Transcript'') (PStr []))
      (dict_get (doc_fields doc) (str ''Date'') (PStr (str ''Fecha desconocida''))) api_key s")
  with True assms have "s' = s0"
    by (auto simp: enrich_doc_def Let_def split: sum.splits if_splits)
  with synthesize_frame [OF a] show ?thesis by simp
qed

text \<open>A pass of the loop body that raises nothing stages exactly one write.\<close>

lemma process_doc_staged:
  assumes "process_doc E api_key doc s = (None, s')"
  shows "\<exists>d s1. enrich_doc E api_key doc s = (Inr d, s1) \<and> s' = stage (doc_id doc) d s1
           \<and> batch s' = batch s @ [(doc_id doc, d)] \<and> batch_count s' = Suc (batch_count s)
           \<and> committed s' = committed s \<and> processed_count s' = Suc (processed_count s)"
proof -
  obtain r s1 where e: "enrich_doc E api_key doc s = (r, s1)"
    by (cases "enrich_doc E api_key doc s")
  with assms obtain d where r: "r = Inr d" and s': "s' = stage (doc_id doc) d s1"
    by (auto simp: process_doc_def split: sum.splits)
  from enrich_frame [OF e] e r s' show ?thesis by (simp add: stage_def)
qed

text \<open>
  The loop from any state whose batch holds fewer than 400 writes: each pass adds one
  write, and the pass that brings the batch to 400 commits it and starts an empty one.
\<close>

lemma run_loop_counts:
  assumes "run_loop E api_key docs s = (None, s')"
    and "length (batch s) = batch_count s" and "batch_count s < 400"
    and "\<forall>b\<in>set (committed s). length b = 400"
  shows "length (batch s') = batch_count s'
       \<and> batch_count s' = (batch_count s + length docs) mod 400
       \<and> length (committed s') = length (committed s) + (batch_count s + length docs) div 400
       \<and> (\<forall>b\<in>set (committed s'). length b = 400)
       \<and> processed_count s' = processed_count s + length docs"
  using assms
proof (induction docs arbitrary: s)
  case Nil
  then show ?case by simp
next
  case (Cons doc docs)
  from Cons.prems(1) obtain s1 where p: "process_doc E api_key doc s = (None, s1)"
    and r: "run_loop E api_key docs (flush_if_full s1) = (None, s')"
    by (auto split: prod.splits option.splits)
  from process_doc_staged [OF p] have s1: "length (batch s1) = Suc (batch_count s)"
    "batch_count s1 = Suc (batch_count s)" "committed s1 = committed s"
    "processed_count s1 = Suc (processed_count s)"
    using Cons.prems(2) by auto
  show ?case
  proof (cases "batch_count s = 399")
    case True
    then have f: "batch (flush_if_full s1) = []" "batch_count (flush_if_full s1) = 0"
      "committed (flush_if_full s1) = committed s @ [batch s1]"
      "processed_count (flush_if_full s1) = Suc (processed_count s)"
      using s1 by (simp_all add: flush_if_full_def)
    have "length (batch s1) = 400" using s1 True by simp
    then have c: "\<forall>b\<in>set (committed (flush_if_full s1)). length b = 400"
      using f Cons.prems(4) by auto
    from Cons.IH [OF r _ _ c] f True show ?thesis by simp
  next
    case False
    then have lt: "Suc (batch_count s) < 400" using Cons.prems(3) by simp
    then have f: "flush_if_full s1 = s1" using s1 by (simp add: flush_if_full_def)
    from Cons.IH [of s1] r f s1 lt Cons.prems(4) show ?thesis by simp
  qed
qed

section \<open>Batches\<close>

text \<open>Documents without transcript never make the loop raise.\<close>

lemma run_loop_no_transcript:
  assumes "\<forall>doc\<in>set docs. \<not> truthy (dict_get (doc_fields doc) (str ''Transcript'') (PStr []))"
  shows "fst (run_loop E api_key docs s) = None"
  using assms
proof (induction docs arbitrary: s)
  case Nil
  then show ?case by simp
next
  case (Cons doc docs)
  then have "process_doc E api_key doc s = (None, stage (doc_id doc) (no_transcript (doc_fields doc)) s)"
    by (simp add: process_doc_def enrich_doc_def)
  with Cons show ?case by simp
qed

text \<open>
  Claim C6. Take the state at the head of any pass of the loop, that is, after the loop
  has handled some documents \<open>docs\<close> without raising. The batch holds
  \<open>length docs mod 400\<close> writes, fewer than 400, every batch committed so far holds
  exactly 400 and there are \<open>length docs div 400\<close> of them. Staging the next write
  brings the batch to at most 400; when it reaches 400 exactly one commit follows and the
  batch is empty again before the next document, otherwise nothing is committed. When
  the stream ends here, the trailing batch is committed once if it is not empty and not
  at all if it is empty, and the run answers with the number of documents.
\<close>

theorem batch_holds_at_most_400:
  assumes "run_loop E api_key docs init_state = (None, s)"
  shows "length (batch s) = length docs mod 400
       \<and> batch_count s = length docs mod 400
       \<and> length (committed s) = length docs div 400
       \<and> (\<forall>b\<in>set (committed s). length b = 400)
       \<and> (\<forall>doc s'. process_doc E api_key doc s = (None, s') \<longrightarrow>
             length (batch s') = length docs mod 400 + 1
             \<and> length (batch s') \<le> 400
             \<and> committed s' = committed s
             \<and> flush_if_full s' =
                 (if length (batch s') = 400
                  then s'\<lparr>committed := committed s @ [batch s'], batch := [], batch_count := 0\<rparr>
                  else s'))
       \<and> commit_remaining s =
           (if length docs mod 400 = 0 then s else s\<lparr>committed := committed s @ [batch s]\<rparr>)
       \<and> (truthy api_key \<longrightarrow>
            process_denuncias E POST api_key docs
              = (Inr (Done (length docs)), commit_remaining s))"
proof -
  have c: "length (batch s) = batch_count s
       \<and> batch_count s = (batch_count init_state + length docs) mod 400
       \<and> length (committed s) = length (committed init_state) + (batch_count init_state + length docs) div 400
       \<and> (\<forall>b\<in>set (committed s). length b = 400)
       \<and> processed_count s = processed_count init_state + length docs"
    by (rule run_loop_counts [OF assms]) (simp_all add: init_state_def)
  then have 1: "length (batch s) = length docs mod 400" "batch_count s = length docs mod 400"
    "length (committed s) = length docs div 400" "\<forall>b\<in>set (committed s). length b = 400"
    "processed_count s = length docs"
    by (simp_all add: init_state_def)
  have 2: "length (batch s') = length docs mod 400 + 1
             \<and> length (batch s') \<le> 400
             \<and> committed s' = committed s
             \<and> flush_if_full s' =
                 (if length (batch s') = 400
                  then s'\<lparr>committed := committed s @ [batch s'], batch := [], batch_count := 0\<rparr>
                  else s')"
    if "process_doc E api_key doc s = (None, s')" for doc s'
  proof -
    from process_doc_staged [OF that] have b: "batch_count s' = Suc (batch_count s)"
      "length (batch s') = Suc (length (batch s))" "committed s' = committed s"
      by auto
    have "length docs mod 400 < 400" by simp
    with b 1 show ?thesis by (simp add: flush_if_full_def)
  qed
  have 3: "commit_remaining s =
           (if length docs mod 400 = 0 then s else s\<lparr>committed := committed s @ [batch s]\<rparr>)"
    using 1 by (simp add: commit_remaining_def)
  have 4: "process_denuncias E POST api_key docs = (Inr (Done (length docs)), commit_remaining s)"
    if "truthy api_key"
    using that assms 1 by (simp add: process_denuncias_def)
  from 1 2 3 4 show ?thesis by blast
qed

text \<open>
  A run over 401 documents: one batch of 400 is committed inside the loop, one write is
  left when the stream ends, and the run ends with two commits.
\<close>

theorem batch_holds_at_most_400_witness:
  "map length (committed (snd (run_loop always_429 (PStr (str ''key''))
       (replicate 401 doc_no_transcript) init_state))) = [400]
   \<and> length (batch (snd (run_loop always_429 (PStr (str ''key''))
       (replicate 401 doc_no_transcript) init_state))) = 1
   \<and> length (committed (snd (process_denuncias always_429 POST (PStr (str ''key''))
       (replicate 401 doc_no_transcript)))) = 2"
proof -
  let ?s = "snd (run_loop always_429 (PStr (str ''key'')) (replicate 401 doc_no_transcript) init_state)"
  have "fst (run_loop always_429 (PStr (str ''key'')) (replicate 401 doc_no_transcript) init_state) = None"
    by (rule run_loop_no_transcript) (simp add: doc_no_transcript_def dict_get_def)
  then have h: "run_loop always_429 (PStr (str ''key'')) (replicate 401 doc_no_transcript) init_state = (None, ?s)"
    by (simp add: prod_eq_iff)
  have k: "truthy (PStr (str ''key''))" by simp
  from batch_holds_at_most_400 [OF h] k
  have 1: "length (committed ?s) = 1" and 2: "\<forall>b\<in>set (committed ?s). length b = 400"
    and 3: "length (batch ?s) = 1"
    and 4: "length (committed (snd (process_denuncias always_429 POST (PStr (str ''key''))
              (replicate 401 doc_no_transcript)))) = 2"
    by simp_all
  from 1 obtain b where "committed ?s = [b]"
    by (cases "committed ?s") simp_all
  with 2 have "map length (committed ?s) = [400]" by simp
  with 3 4 show ?thesis by simp
qed

section \<open>The enriched record\<close>

text \<open>The three field names with an accent, unfolded when names are compared.\<close>

lemmas key_defs = k_Sintesis_def k_Alcaldia_def k_EsAnonima_def

text \<open>The two ways a record is filled in, read as maps from field name to value.\<close>

lemma no_transcript_map:
  "map_of (no_transcript d) =
     (map_of d)(k_Sintesis \<mapsto> PStr (str ''No Transcript available.''),
                str ''Tiempo'' \<mapsto> PStr (str ''N/A''),
                str ''Modo'' \<mapsto> PStr (str ''N/A''),
                str ''Circunstancia'' \<mapsto> PStr (str ''N/A''),
                k_Alcaldia \<mapsto> PStr (str ''N/A''),
                k_EsAnonima \<mapsto> PStr (str ''N/A''),
                str ''Registro'' \<mapsto> PStr (str ''N/A''))"
  by (simp add: no_transcript_def update_conv')

lemma apply_extracted_map:
  assumes "dict_get ann (str ''es_anonima'') (PStr (str ''NO'')) = PStr es"
  shows "\<exists>rec. apply_extracted U d (PDict ann) = Inr rec
           \<and> map_of rec =
               (map_of d)(k_Sintesis \<mapsto> dict_get ann (str ''sintesis'') (PStr []),
                          str ''Tiempo'' \<mapsto> dict_get ann (str ''tiempo'') (PStr []),
                          str ''Modo'' \<mapsto> dict_get ann (str ''modo'') (PStr []),
                          str ''Circunstancia'' \<mapsto> dict_get ann (str ''circunstancia'') (PStr []),
                          k_Alcaldia \<mapsto> dict_get ann (str ''alcaldia'') (PStr []),
                          k_EsAnonima \<mapsto> PStr (upper U es),
                          str ''Registro'' \<mapsto>
                            PStr (if upper U es = str ''SI'' then str ''Aviso''
                                  else str ''Denuncia''))"
  using assms by (simp add: apply_extracted_def py_upper_def update_conv' Let_def)

text \<open>
  Lines 144 to 156 go through only for a dict whose \<^verbatim>\<open>es_anonima\<close> is a string or is
  missing.
\<close>

lemma apply_extracted_Inr:
  assumes "apply_extracted U d x = Inr rec"
  shows "\<exists>ann es. x = PDict ann \<and> dict_get ann (str ''es_anonima'') (PStr (str ''NO'')) = PStr es"
proof -
  from assms obtain ann where x: "x = PDict ann"
    by (cases x) (simp_all add: apply_extracted_def)
  with assms obtain es where "dict_get ann (str ''es_anonima'') (PStr (str ''NO'')) = PStr es"
    by (cases "dict_get ann (str ''es_anonima'') (PStr (str ''NO''))")
       (simp_all add: apply_extracted_def py_upper_def Let_def)
  with x show ?thesis by blast
qed

text \<open>A pass of the loop body whose extraction returned a truthy value.\<close>

lemma enrich_with_annotation:
  assumes "truthy (dict_get (doc_fields doc) (str ''Transcript'') (PStr []))"
    and "synthesize_and_extract E (dict_get (doc_fields doc) (str ''Transcript'') (PStr []))
           (dict_get (doc_fields doc) (str ''Date'') (PStr (str ''Fecha desconocida''))) api_key s
         = (Inr x, s1)"
    and "truthy x"
  shows "process_doc E api_key doc s =
           (case apply_extracted (unicode E) (doc_fields doc) x of
              Inl e \<Rightarrow> (Some e, s1)
            | Inr rec \<Rightarrow> (None, stage (doc_id doc) rec s1))"
  using assms by (simp add: process_doc_def enrich_doc_def Let_def split: sum.splits)

text \<open>
  Claim C1, as amended. For a source record with a non-empty transcript whose extraction
  returned a non-empty dict in which \<^verbatim>\<open>es_anonima\<close> is a string, or is missing and then
  counts as \<^verbatim>\<open>"NO"\<close>, a record is staged, its field \<^verbatim>\<open>Registro\<close> is \<^verbatim>\<open>"Aviso"\<close> exactly when
  \<^verbatim>\<open>es_anonima\<close> in upper case is \<^verbatim>\<open>"SI"\<close> and \<^verbatim>\<open>"Denuncia"\<close> otherwise, and the anonymity
  field holds the upper-cased value.
\<close>

theorem registro_follows_anonymity:
  assumes "truthy (dict_get (doc_fields doc) (str ''Transcript'') (PStr []))"
    and "synthesize_and_extract E (dict_get (doc_fields doc) (str ''Transcript'') (PStr []))
           (dict_get (doc_fields doc) (str ''Date'') (PStr (str ''Fecha desconocida''))) api_key s
         = (Inr (PDict ann), s1)"
    and "truthy (PDict ann)"
    and "dict_get ann (str ''es_anonima'') (PStr (str ''NO'')) = PStr es"
  shows "\<exists>rec. process_doc E api_key doc s = (None, stage (doc_id doc) rec s1)
           \<and> map_of rec k_EsAnonima = Some (PStr (upper (unicode E) es))
           \<and> map_of rec (str ''Registro'')
               = Some (PStr (if upper (unicode E) es = str ''SI'' then str ''Aviso''
                             else str ''Denuncia''))"
proof -
  from apply_extracted_map [OF assms(4), of "unicode E" "doc_fields doc"] obtain rec
    where r: "apply_extracted (unicode E) (doc_fields doc) (PDict ann) = Inr rec"
      and m: "map_of rec =
               (map_of (doc_fields doc))
                 (k_Sintesis \<mapsto> dict_get ann (str ''sintesis'') (PStr []),
                  str ''Tiempo'' \<mapsto> dict_get ann (str ''tiempo'') (PStr []),
                  str ''Modo'' \<mapsto> dict_get ann (str ''modo'') (PStr []),
                  str ''Circunstancia'' \<mapsto> dict_get ann (str ''circunstancia'') (PStr []),
                  k_Alcaldia \<mapsto> dict_get ann (str ''alcaldia'') (PStr []),
                  k_EsAnonima \<mapsto> PStr (upper (unicode E) es),
                  str ''Registro'' \<mapsto>
                    PStr (if upper (unicode E) es = str ''SI'' then str ''Aviso''
                          else str ''Denuncia''))"
    by blast
  have "process_doc E api_key doc s = (None, stage (doc_id doc) rec s1)"
    using enrich_with_annotation [OF assms(1,2,3)] r by simp
  moreover have "map_of rec k_EsAnonima = Some (PStr (upper (unicode E) es))"
    unfolding m by (simp add: key_defs)
  moreover have "map_of rec (str ''Registro'')
               = Some (PStr (if upper (unicode E) es = str ''SI'' then str ''Aviso''
                             else str ''Denuncia''))"
    unfolding m by simp
  ultimately show ?thesis by blast
qed

text \<open>
  Claim C10. For a source record with a non-empty transcript whose extraction failed
  and returned the degraded annotation, the record that is staged has the anonymity
  field \<^verbatim>\<open>"ERROR"\<close> and \<^verbatim>\<open>Registro\<close> equal to \<^verbatim>\<open>"Denuncia"\<close>: a failed extraction is never
  classified as \<^verbatim>\<open>"Aviso"\<close>.
\<close>

theorem failed_extraction_is_denuncia:
  assumes "truthy (dict_get (doc_fields doc) (str ''Transcript'') (PStr []))"
    and "synthesize_and_extract E (dict_get (doc_fields doc) (str ''Transcript'') (PStr []))
           (dict_get (doc_fields doc) (str ''Date'') (PStr (str ''Fecha desconocida''))) api_key s
         = (Inr (degraded m), s1)"
  shows "\<exists>rec. process_doc E api_key doc s = (None, stage (doc_id doc) rec s1)
           \<and> map_of rec k_EsAnonima = Some (PStr (str ''ERROR''))
           \<and> map_of rec (str ''Registro'') = Some (PStr (str ''Denuncia''))"
proof -
  let ?ann = "[(str ''sintesis'', PStr (str ''Error: '' @ m)), (str ''tiempo'', PStr (str ''Error'')),
            (str ''modo'', PStr (str ''Error'')), (str ''circunstancia'', PStr (str ''Error'')),
            (str ''alcaldia'', PStr (str ''Error'')), (str ''es_anonima'', PStr (str ''Error''))]"
  have d: "degraded m = PDict ?ann" by (simp add: degraded_def)
  have g: "dict_get ?ann (str ''es_anonima'') (PStr (str ''NO'')) = PStr (str ''Error'')"
    by (simp add: dict_get_def)
  have u: "upper (unicode E) (str ''Error'') = str ''ERROR''"
    by (simp add: upper_def upper_cp_def)
  from apply_extracted_map [OF g, of "unicode E" "doc_fields doc"] obtain rec
    where r: "apply_extracted (unicode E) (doc_fields doc) (degraded m) = Inr rec"
      and e: "map_of rec k_EsAnonima = Some (PStr (str ''ERROR''))"
      and k: "map_of rec (str ''Registro'') = Some (PStr (str ''Denuncia''))"
    unfolding d u by (auto simp: key_defs)
  have "truthy (degraded m)" by (simp add: degraded_def)
  from enrich_with_annotation [OF assms this] r
  have "process_doc E api_key doc s = (None, stage (doc_id doc) rec s1)" by simp
  with e k show ?thesis by blast
qed

text \<open>
  Claim C2, as amended. For a source record whose transcript is missing or falsy (the
  empty string, \<^verbatim>\<open>None\<close>), no extraction is attempted and the record that is staged has
  the synthesis field equal to \<^verbatim>\<open>"No Transcript available."\<close> and each of the other five
  derived fields and \<^verbatim>\<open>Registro\<close> equal to \<^verbatim>\<open>"N/A"\<close>.
\<close>

theorem no_transcript_fields:
  assumes "\<not> truthy (dict_get (doc_fields doc) (str ''Transcript'') (PStr []))"
  shows "\<exists>rec. process_doc E api_key doc s = (None, stage (doc_id doc) rec s)
           \<and> map_of rec k_Sintesis = Some (PStr (str ''No Transcript available.''))
           \<and> map_of rec (str ''Tiempo'') = Some (PStr (str ''N/A''))
           \<and> map_of rec (str ''Modo'') = Some (PStr (str ''N/A''))
           \<and> map_of rec (str ''Circunstancia'') = Some (PStr (str ''N/A''))
           \<and> map_of rec k_Alcaldia = Some (PStr (str ''N/A''))
           \<and> map_of rec k_EsAnonima = Some (PStr (str ''N/A''))
           \<and> map_of rec (str ''Registro'') = Some (PStr (str ''N/A''))"
proof -
  have "process_doc E api_key doc s = (None, stage (doc_id doc) (no_transcript (doc_fields doc)) s)"
    using assms by (simp add: process_doc_def enrich_doc_def)
  then show ?thesis
    by (intro exI [of _ "no_transcript (doc_fields doc)"])
       (simp add: no_transcript_map key_defs)
qed

text \<open>
  Claim C9, as amended. In the record staged for a source record, every field whose name
  is not one of the seven names the run writes keeps its value, every field name of the
  source is still present, and no name is added besides those seven.
\<close>

theorem source_fields_kept:
  assumes "process_doc E api_key doc s = (None, s')"
  shows "\<exists>rec. batch s' = batch s @ [(doc_id doc, rec)]
           \<and> (\<forall>k. k \<notin> derived_keys \<longrightarrow> map_of rec k = map_of (doc_fields doc) k)
           \<and> dom (map_of (doc_fields doc)) \<subseteq> dom (map_of rec)
           \<and> dom (map_of rec) \<subseteq> dom (map_of (doc_fields doc)) \<union> derived_keys"
proof -
  from process_doc_staged [OF assms] obtain rec s1
    where e: "enrich_doc E api_key doc s = (Inr rec, s1)"
      and b: "batch s' = batch s @ [(doc_id doc, rec)]"
    by blast
  let ?d = "doc_fields doc"
  have "rec = ?d \<or> rec = no_transcript ?d \<or> (\<exists>x. apply_extracted (unicode E) ?d x = Inr rec)"
    using e by (auto simp: enrich_doc_def Let_def split: if_splits prod.splits sum.splits)
  then have "(\<forall>k. k \<notin> derived_keys \<longrightarrow> map_of rec k = map_of ?d k)
           \<and> dom (map_of ?d) \<subseteq> dom (map_of rec)
           \<and> dom (map_of rec) \<subseteq> dom (map_of ?d) \<union> derived_keys"
  proof (elim disjE exE)
    assume "rec = ?d"
    then show ?thesis by simp
  next
    assume "rec = no_transcript ?d"
    then show ?thesis
      by (auto simp: no_transcript_map derived_keys_def)
  next
    fix x assume a: "apply_extracted (unicode E) ?d x = Inr rec"
    from apply_extracted_Inr [OF a] obtain ann es
      where x: "x = PDict ann"
        and g: "dict_get ann (str ''es_anonima'') (PStr (str ''NO'')) = PStr es"
      by blast
    from apply_extracted_map [OF g, of "unicode E" ?d] a x
    have "map_of rec =
               (map_of ?d)(k_Sintesis \<mapsto> dict_get ann (str ''sintesis'') (PStr []),
                          str ''Tiempo'' \<mapsto> dict_get ann (str ''tiempo'') (PStr []),
                          str ''Modo'' \<mapsto> dict_get ann (str ''modo'') (PStr []),
                          str ''Circunstancia'' \<mapsto> dict_get ann (str ''circunstancia'') (PStr []),
                          k_Alcaldia \<mapsto> dict_get ann (str ''alcaldia'') (PStr []),
                          k_EsAnonima \<mapsto> PStr (upper (unicode E) es),
                          str ''Registro'' \<mapsto>
                            PStr (if upper (unicode E) es = str ''SI'' then str ''Aviso''
                                  else str ''Denuncia''))"
      by auto
    then show ?thesis
      by (auto simp: derived_keys_def)
  qed
  with b show ?thesis by blast
qed

text \<open>What the sample collaborators give on the sample documents.\<close>

lemma attempts_first_succeeds:
  assumes "try_once E (calls s) p = Inr v"
  shows "attempts E p max_retries 0 5 s = (Inr v, s\<lparr>calls := calls s + 1\<rparr>)"
  using assms by (simp add: max_retries_def numeral_3_eq_3 Let_def)

lemma third_time_lucky_extracts:
  "synthesize_and_extract third_time_lucky (PStr (str ''Me pidieron dinero''))
     (PStr (str ''03/10/2025'')) (PStr (str ''key'')) init_state
   = (Inr (PDict [(str ''es_anonima'', PStr (str ''si''))]),
      init_state\<lparr>calls := 3, slept := [5, 10]\<rparr>)"
proof -
  let ?p = "\<lparr>p_day = day_of_week (unicode third_time_lucky) (PStr (str ''03/10/2025'')),
             p_report_date = PStr (str ''03/10/2025''),
             p_text = PStr (str ''Me pidieron dinero'')\<rparr>"
  have t0: "try_once third_time_lucky (calls init_state) ?p
              = Inl (Exception (str ''429 Resource exhausted''))"
    by (simp add: try_once_def third_time_lucky_def init_state_def)
  have t1: "try_once third_time_lucky (calls init_state + 1) ?p
              = Inl (Exception (str ''429 Resource exhausted''))"
    by (simp add: try_once_def third_time_lucky_def init_state_def)
  have t2: "try_once third_time_lucky (calls init_state + 2) ?p
              = Inr (PDict [(str ''es_anonima'', PStr (str ''si''))])"
    by (simp add: try_once_def parse_response_def third_time_lucky_def sample_reply [simplified]
        sample_loads_def json_trim_def json_ws_def init_state_def)
  have "synthesize_and_extract third_time_lucky (PStr (str ''Me pidieron dinero''))
          (PStr (str ''03/10/2025'')) (PStr (str ''key'')) init_state =
        (case try_once third_time_lucky (calls init_state + 2) ?p of
              Inr v \<Rightarrow> (Inr v, init_state\<lparr>calls := calls init_state + 3,
                                         slept := slept init_state @ [5, 10]\<rparr>)
            | Inl (Exception m) \<Rightarrow>
                (Inr (degraded m), init_state\<lparr>calls := calls init_state + 3,
                                             slept := slept init_state @ [5, 10]\<rparr>)
            | Inl (BaseException m) \<Rightarrow>
                (Inl (BaseException m), init_state\<lparr>calls := calls init_state + 3,
                                                  slept := slept init_state @ [5, 10]\<rparr>))"
    by (rule synthesize_after_two_429 [OF _ _ refl t0 contains_429 t1 contains_429])
       (simp_all add: third_time_lucky_def)
  then show ?thesis unfolding t2 by (simp add: init_state_def)
qed

lemma not_json_extracts:
  "synthesize_and_extract not_json (PStr (str ''Me pidieron dinero''))
     (PStr (str ''03/10/2025'')) (PStr (str ''key'')) init_state
   = (Inr (degraded (str ''Expecting value: line 1 column 1 (char 0)'')),
      init_state\<lparr>calls := 1\<rparr>)"
proof -
  have "attempts not_json
          \<lparr>p_day = day_of_week (unicode not_json) (PStr (str ''03/10/2025'')),
           p_report_date = PStr (str ''03/10/2025''),
           p_text = PStr (str ''Me pidieron dinero'')\<rparr> max_retries 0 5 init_state
        = (Inl (Exception (str ''Expecting value: line 1 column 1 (char 0)'')),
           init_state\<lparr>calls := calls init_state + 1\<rparr>)"
    by (rule attempts_first_fails [OF not_json_fails no_429_in_expecting])
  then show ?thesis
    by (simp add: synthesize_and_extract_def not_json_def init_state_def)
qed

lemma answers_true_extracts:
  "synthesize_and_extract answers_true (PStr (str ''Me pidieron dinero''))
     (PStr (str ''03/10/2025'')) (PStr (str ''key'')) init_state
   = (Inr (PDict [(str ''es_anonima'', PBool True)]), init_state\<lparr>calls := 1\<rparr>)"
proof -
  let ?p = "\<lparr>p_day = day_of_week (unicode answers_true) (PStr (str ''03/10/2025'')),
             p_report_date = PStr (str ''03/10/2025''),
             p_text = PStr (str ''Me pidieron dinero'')\<rparr>"
  have "try_once answers_true (calls init_state) ?p = Inr (PDict [(str ''es_anonima'', PBool True)])"
    by (simp add: try_once_def answers_true_def parse_response_def clean_content_def
        py_strip_def is_space_def startswith_def endswith_def sample_loads_def json_trim_def
        json_ws_def Let_def)
  then have "attempts answers_true ?p max_retries 0 5 init_state
        = (Inr (PDict [(str ''es_anonima'', PBool True)]),
           init_state\<lparr>calls := calls init_state + 1\<rparr>)"
    by (rule attempts_first_succeeds)
  then show ?thesis
    by (simp add: synthesize_and_extract_def answers_true_def init_state_def)
qed

lemma doc_with_transcript_fields:
  "dict_get (doc_fields doc_with_transcript) (str ''Transcript'') (PStr [])
     = PStr (str ''Me pidieron dinero'')"
  "dict_get (doc_fields doc_with_transcript) (str ''Date'') (PStr (str ''Fecha desconocida''))
     = PStr (str ''03/10/2025'')"
  "doc_id doc_with_transcript = str ''d3''"
  by (simp_all add: doc_with_transcript_def dict_get_def)

text \<open>An annotation that answers \<^verbatim>\<open>"si"\<close> in lower case is an \<^verbatim>\<open>"Aviso"\<close>.\<close>

theorem registro_follows_anonymity_witness:
  "\<exists>rec. process_doc third_time_lucky (PStr (str ''key'')) doc_with_transcript init_state
            = (None, stage (str ''d3'') rec (init_state\<lparr>calls := 3, slept := [5, 10]\<rparr>))
         \<and> map_of rec k_EsAnonima = Some (PStr (str ''SI''))
         \<and> map_of rec (str ''Registro'') = Some (PStr (str ''Aviso''))"
proof -
  have u: "upper (unicode third_time_lucky) (str ''si'') = str ''SI''"
    by (simp add: upper_def upper_cp_def)
  have 1: "truthy (dict_get (doc_fields doc_with_transcript) (str ''Transcript'') (PStr []))"
    unfolding doc_with_transcript_fields by simp
  have 2: "synthesize_and_extract third_time_lucky
             (dict_get (doc_fields doc_with_transcript) (str ''Transcript'') (PStr []))
             (dict_get (doc_fields doc_with_transcript) (str ''Date'')
                (PStr (str ''Fecha desconocida'')))
             (PStr (str ''key'')) init_state
           = (Inr (PDict [(str ''es_anonima'', PStr (str ''si''))]),
              init_state\<lparr>calls := 3, slept := [5, 10]\<rparr>)"
    unfolding doc_with_transcript_fields by (rule third_time_lucky_extracts)
  have 3: "truthy (PDict [(str ''es_anonima'', PStr (str ''si''))])" by simp
  have 4: "dict_get [(str ''es_anonima'', PStr (str ''si''))] (str ''es_anonima'')
             (PStr (str ''NO'')) = PStr (str ''si'')"
    by (simp add: dict_get_def)
  from registro_follows_anonymity [OF 1 2 3 4] show ?thesis
    unfolding u doc_with_transcript_fields by simp
qed

text \<open>
  Claim C1 as stated fails: the model answers the anonymity question with the JSON
  boolean \<^verbatim>\<open>true\<close>. The extraction returns a truthy annotation, line 150 raises
  AttributeError, no record is staged and the run ends with status 500 and nothing
  committed.
\<close>

theorem boolean_anonymity_raises:
  "synthesize_and_extract answers_true (PStr (str ''Me pidieron dinero''))
     (PStr (str ''03/10/2025'')) (PStr (str ''key'')) init_state
   = (Inr (PDict [(str ''es_anonima'', PBool True)]), init_state\<lparr>calls := 1\<rparr>)
   \<and> truthy (PDict [(str ''es_anonima'', PBool True)])
   \<and> process_doc answers_true (PStr (str ''key'')) doc_with_transcript init_state
     = (Some (Exception (no_attribute (PBool True) (str ''upper''))), init_state\<lparr>calls := 1\<rparr>)
   \<and> process_denuncias answers_true POST (PStr (str ''key'')) [doc_with_transcript]
     = (Inr (Failed (no_attribute (PBool True) (str ''upper''))), init_state\<lparr>calls := 1\<rparr>)
   \<and> batch (init_state\<lparr>calls := 1\<rparr>) = [] \<and> committed (init_state\<lparr>calls := 1\<rparr>) = []"
proof -
  have 1: "truthy (dict_get (doc_fields doc_with_transcript) (str ''Transcript'') (PStr []))"
    unfolding doc_with_transcript_fields by simp
  have 2: "synthesize_and_extract answers_true
             (dict_get (doc_fields doc_with_transcript) (str ''Transcript'') (PStr []))
             (dict_get (doc_fields doc_with_transcript) (str ''Date'')
                (PStr (str ''Fecha desconocida'')))
             (PStr (str ''key'')) init_state
           = (Inr (PDict [(str ''es_anonima'', PBool True)]), init_state\<lparr>calls := 1\<rparr>)"
    unfolding doc_with_transcript_fields by (rule answers_true_extracts)
  have 3: "truthy (PDict [(str ''es_anonima'', PBool True)])" by simp
  have a: "apply_extracted (unicode answers_true) (doc_fields doc_with_transcript)
             (PDict [(str ''es_anonima'', PBool True)])
           = Inl (Exception (no_attribute (PBool True) (str ''upper'')))"
    by (simp add: apply_extracted_def py_upper_def dict_get_def Let_def)
  have p: "process_doc answers_true (PStr (str ''key'')) doc_with_transcript init_state
     = (Some (Exception (no_attribute (PBool True) (str ''upper''))), init_state\<lparr>calls := 1\<rparr>)"
    using enrich_with_annotation [OF 1 2 3] a by simp
  then have "process_denuncias answers_true POST (PStr (str ''key'')) [doc_with_transcript]
     = (Inr (Failed (no_attribute (PBool True) (str ''upper''))), init_state\<lparr>calls := 1\<rparr>)"
    by (simp add: process_denuncias_def)
  with p answers_true_extracts show ?thesis by (simp add: init_state_def)
qed

text \<open>A response that is no JSON ends as a \<^verbatim>\<open>"Denuncia"\<close>.\<close>

theorem failed_extraction_is_denuncia_witness:
  "\<exists>rec. process_doc not_json (PStr (str ''key'')) doc_with_transcript init_state
            = (None, stage (str ''d3'') rec (init_state\<lparr>calls := 1\<rparr>))
         \<and> map_of rec k_EsAnonima = Some (PStr (str ''ERROR''))
         \<and> map_of rec (str ''Registro'') = Some (PStr (str ''Denuncia''))"
proof -
  have 1: "truthy (dict_get (doc_fields doc_with_transcript) (str ''Transcript'') (PStr []))"
    unfolding doc_with_transcript_fields by simp
  have 2: "synthesize_and_extract not_json
             (dict_get (doc_fields doc_with_transcript) (str ''Transcript'') (PStr []))
             (dict_get (doc_fields doc_with_transcript) (str ''Date'')
                (PStr (str ''Fecha desconocida'')))
             (PStr (str ''key'')) init_state
           = (Inr (degraded (str ''Expecting value: line 1 column 1 (char 0)'')),
              init_state\<lparr>calls := 1\<rparr>)"
    unfolding doc_with_transcript_fields by (rule not_json_extracts)
  from failed_extraction_is_denuncia [OF 1 2] show ?thesis
    unfolding doc_with_transcript_fields by simp
qed

lemma doc_no_transcript_falsy:
  "\<not> truthy (dict_get (doc_fields doc_no_transcript) (str ''Transcript'') (PStr []))"
  by (simp add: doc_no_transcript_def dict_get_def)

lemma doc_with_registro_falsy:
  "\<not> truthy (dict_get (doc_fields doc_with_registro) (str ''Transcript'') (PStr []))"
  by (simp add: doc_with_registro_def dict_get_def)

lemma process_without_transcript:
  "\<not> truthy (dict_get (doc_fields doc) (str ''Transcript'') (PStr [])) \<Longrightarrow>
     process_doc E api_key doc s = (None, stage (doc_id doc) (no_transcript (doc_fields doc)) s)"
  by (simp add: process_doc_def enrich_doc_def)

text \<open>A document with an empty transcript.\<close>

theorem no_transcript_fields_witness:
  "\<exists>rec. process_doc always_429 (PStr (str ''key'')) doc_no_transcript init_state
            = (None, stage (str ''d1'') rec init_state)
         \<and> map_of rec k_Sintesis = Some (PStr (str ''No Transcript available.''))
         \<and> map_of rec (str ''Tiempo'') = Some (PStr (str ''N/A''))
         \<and> map_of rec (str ''Modo'') = Some (PStr (str ''N/A''))
         \<and> map_of rec (str ''Circunstancia'') = Some (PStr (str ''N/A''))
         \<and> map_of rec k_Alcaldia = Some (PStr (str ''N/A''))
         \<and> map_of rec k_EsAnonima = Some (PStr (str ''N/A''))
         \<and> map_of rec (str ''Registro'') = Some (PStr (str ''N/A''))"
proof -
  have i: "doc_id doc_no_transcript = str ''d1''" by (simp add: doc_no_transcript_def)
  from no_transcript_fields [OF doc_no_transcript_falsy, of always_429 "PStr (str ''key'')"
      init_state]
  show ?thesis unfolding i .
qed

text \<open>
  Claim C2 as stated fails: the seven fields do not hold one marker, the synthesis field
  holds another literal than \<^verbatim>\<open>Tiempo\<close>.
\<close>

theorem no_transcript_sintesis_differs:
  "map_of (snd (last (batch (snd (process_doc always_429 (PStr (str ''key'')) doc_no_transcript
            init_state))))) k_Sintesis = Some (PStr (str ''No Transcript available.''))
   \<and> map_of (snd (last (batch (snd (process_doc always_429 (PStr (str ''key'')) doc_no_transcript
            init_state))))) (str ''Tiempo'') = Some (PStr (str ''N/A''))
   \<and> PStr (str ''No Transcript available.'') \<noteq> PStr (str ''N/A'')"
proof -
  have "snd (last (batch (snd (process_doc always_429 (PStr (str ''key'')) doc_no_transcript
            init_state)))) = no_transcript (doc_fields doc_no_transcript)"
    by (simp add: process_without_transcript [OF doc_no_transcript_falsy] stage_def)
  then show ?thesis
    by (simp add: no_transcript_map key_defs)
qed

text \<open>The transcript and the date of a source record are carried over.\<close>

theorem source_fields_kept_witness:
  "\<exists>rec. batch (snd (process_doc always_429 (PStr (str ''key'')) doc_no_transcript init_state))
            = batch init_state @ [(str ''d1'', rec)]
         \<and> map_of rec (str ''Transcript'') = Some (PStr [])
         \<and> map_of rec (str ''Date'') = Some (PStr (str ''03/10/2025''))"
proof -
  have h: "process_doc always_429 (PStr (str ''key'')) doc_no_transcript init_state
           = (None, snd (process_doc always_429 (PStr (str ''key'')) doc_no_transcript init_state))"
    by (simp add: process_without_transcript [OF doc_no_transcript_falsy])
  have k: "str ''Transcript'' \<notin> derived_keys" "str ''Date'' \<notin> derived_keys"
    by (simp_all add: derived_keys_def key_defs)
  from source_fields_kept [OF h] obtain rec
    where b: "batch (snd (process_doc always_429 (PStr (str ''key'')) doc_no_transcript init_state))
                = batch init_state @ [(doc_id doc_no_transcript, rec)]"
      and f: "\<forall>k. k \<notin> derived_keys \<longrightarrow> map_of rec k = map_of (doc_fields doc_no_transcript) k"
    by blast
  from f k have "map_of rec (str ''Transcript'') = Some (PStr [])"
    "map_of rec (str ''Date'') = Some (PStr (str ''03/10/2025''))"
    by (simp_all add: doc_no_transcript_def)
  with b show ?thesis by (simp add: doc_no_transcript_def)
qed

text \<open>
  Claim C9 as stated fails: a source record that already has a field \<^verbatim>\<open>Registro\<close> does
  not keep its value.
\<close>

theorem source_registro_overwritten:
  "map_of (doc_fields doc_with_registro) (str ''Registro'') = Some (PStr (str ''Folio 7''))
   \<and> map_of (snd (last (batch (snd (process_doc always_429 (PStr (str ''key'')) doc_with_registro
            init_state))))) (str ''Registro'') = Some (PStr (str ''N/A''))
   \<and> PStr (str ''N/A'') \<noteq> PStr (str ''Folio 7'')"
proof -
  have "snd (last (batch (snd (process_doc always_429 (PStr (str ''key'')) doc_with_registro
            init_state)))) = no_transcript (doc_fields doc_with_registro)"
    by (simp add: process_without_transcript [OF doc_with_registro_falsy] stage_def)
  then show ?thesis
    by (simp add: no_transcript_map doc_with_registro_def)
qed

end
